theory Spec2Isabelle
  imports Main "HOL-Library.Word" "HOL-Library.Multiset" "HOL-Library.Sublist"
begin

section \<open>Block generation of the mining worker (internal/pkg/mining/block_generate.go)\<close>

text \<open>
  The development embeds the three functions of the file: \<open>divideMessages\<close>,
  \<open>aggregateBLS\<close> and \<open>DefaultWorker.Generate\<close>. Go pointers to messages and
  receipts are read as the values they point to (every slice is taken to hold non-nil
  pointers). A Go slice is a list; where the difference between the nil slice and the
  zero-length slice is observable (the receipts handed to the message store) the slice is a
  value of the type \<open>slice\<close> below.
\<close>

subsection \<open>Data\<close>

type_synonym bytes = "8 word list"
type_synonym uint64 = "64 word"
type_synonym Cid = bytes
type_synonym TipSetKey = "Cid list"
type_synonym Ticket = bytes
type_synonym VRFPi = bytes

text \<open>
  \<open>errors.New\<close>/\<open>errors.Errorf\<close> build an error from a text and \<open>errors.Wrap\<close> puts a
  stage label around a cause.
\<close>

datatype error = Error string | Wrap error string

text \<open>An address protocol is a byte.\<close>

type_synonym Protocol = "8 word"

text \<open>
  Modelled from the spec: the package \<open>address\<close>, which declares the constant
  \<open>address.BLS\<close>, is absent. The specification tells BLS senders from all other senders
  by the protocol of the address, so the constant is one fixed protocol byte. The
  theorems about all inputs hold for whatever byte it is; its value is read only where a
  concrete run is evaluated.
\<close>

definition address_BLS :: Protocol where
  "address_BLS = 3"

record Address =
  Protocol :: Protocol
  Payload :: bytes

text \<open>
  Of an unsigned message the file reads the sender only; the remaining fields are kept as
  one opaque byte string.
\<close>

record UnsignedMessage =
  From :: Address
  Body :: bytes

record SignedMessage =
  Message :: UnsignedMessage
  Signature :: bytes

subsection \<open>divideMessages\<close>

text \<open>
  The loop of \<open>divideMessages\<close>: both result slices start empty and every message is
  appended to exactly one of them, in input order.
\<close>

fun divideLoop ::
  "SignedMessage list \<Rightarrow> SignedMessage list \<Rightarrow> SignedMessage list
     \<Rightarrow> SignedMessage list \<times> SignedMessage list" where
  "divideLoop secpMessages blsMessages [] = (secpMessages, blsMessages)"
| "divideLoop secpMessages blsMessages (m # messages) =
     (if Protocol (From (Message m)) = address_BLS
      then divideLoop secpMessages (blsMessages @ [m]) messages
      else divideLoop (secpMessages @ [m]) blsMessages messages)"

definition divideMessages ::
  "SignedMessage list \<Rightarrow> SignedMessage list \<times> SignedMessage list" where
  "divideMessages messages = divideLoop [] [] messages"

definition isBLS :: "SignedMessage \<Rightarrow> bool" where
  "isBLS m = (Protocol (From (Message m)) = address_BLS)"

subsection \<open>aggregateBLS\<close>

text \<open>
  The package \<open>bls\<close> (go-bls-sigs) is a dependency outside the file. It enters as a
  parameter: the size of the array type \<open>bls.Signature\<close> and the function
  \<open>bls.Aggregate\<close>, whose nil result is \<open>None\<close>.
\<close>

record bls_package =
  SignatureBytes :: nat
  Aggregate :: "bytes list \<Rightarrow> bytes option"

text \<open>
  Go's builtin \<open>copy(dst, src)\<close> overwrites the first \<open>min (len dst) (len src)\<close> bytes of
  \<open>dst\<close> and leaves the rest of \<open>dst\<close> as it was; the length of \<open>dst\<close> never changes.
\<close>

definition copy_bytes :: "bytes \<Rightarrow> bytes \<Rightarrow> bytes" where
  "copy_bytes dst src = take (length dst) src @ drop (length src) dst"

text \<open>\<open>blsSig := bls.Signature{}; copy(blsSig[:], sig)\<close>\<close>

definition toBLSSignature :: "bls_package \<Rightarrow> bytes \<Rightarrow> bytes" where
  "toBLSSignature pkg sig = copy_bytes (replicate (SignatureBytes pkg) 0) sig"

fun aggregateLoop ::
  "bls_package \<Rightarrow> bytes list \<Rightarrow> UnsignedMessage list \<Rightarrow> SignedMessage list
     \<Rightarrow> bytes list \<times> UnsignedMessage list" where
  "aggregateLoop pkg sigs unwrappedMsgs [] = (sigs, unwrappedMsgs)"
| "aggregateLoop pkg sigs unwrappedMsgs (msg # blsMessages) =
     aggregateLoop pkg (sigs @ [toBLSSignature pkg (Signature msg)])
       (unwrappedMsgs @ [Message msg]) blsMessages"

text \<open>
  The error return of \<open>aggregateBLS\<close> carries an empty message slice and an empty
  signature beside the error; only the error is kept.
\<close>

definition aggregateBLS ::
  "bls_package \<Rightarrow> SignedMessage list \<Rightarrow> error + (UnsignedMessage list \<times> bytes)" where
  "aggregateBLS pkg blsMessages =
     (case aggregateLoop pkg [] [] blsMessages of
        (sigs, unwrappedMsgs) \<Rightarrow>
          (case Aggregate pkg sigs of
             None \<Rightarrow> Inl (Error ''could not aggregate signatures'')
           | Some blsAggregateSig \<Rightarrow> Inr (unwrappedMsgs, blsAggregateSig)))"

text \<open>
  Modelled from the spec: \<open>bls.Aggregate\<close> belongs to the library go-bls-sigs, whose code
  is absent. Section 4.5 of the specification requires the aggregation over the empty
  set to produce a well-defined identity aggregate and leaves every other outcome to the
  scheme's aggregation algorithm, which is the parameter \<open>scheme\<close> here.
\<close>

definition spec_Aggregate ::
  "bytes \<Rightarrow> (bytes list \<Rightarrow> bytes option) \<Rightarrow> bytes list \<Rightarrow> bytes option" where
  "spec_Aggregate identitySig scheme sigs =
     (case sigs of [] \<Rightarrow> Some identitySig | _ # _ \<Rightarrow> scheme sigs)"

subsection \<open>Results of message application\<close>

record MessageReceipt =
  ExitCode :: "8 word"
  ReturnValue :: "bytes list"
  GasUsed :: uint64

record ApplicationResult =
  Receipt :: MessageReceipt
  ExecutionError :: "error option"

text \<open>
  A Go slice whose nil-ness matters: \<open>nil_slice\<close> is the nil slice, \<open>Slice []\<close> the
  zero-length slice that is not nil. \<open>append\<close> to either gives a slice that is not nil.
\<close>

datatype 'a slice = nil_slice | Slice "'a list"

fun elems :: "'a slice \<Rightarrow> 'a list" where
  "elems nil_slice = []"
| "elems (Slice xs) = xs"

definition append_slice :: "'a slice \<Rightarrow> 'a \<Rightarrow> 'a slice" where
  "append_slice s x = Slice (elems s @ [x])"

record ApplyMessagesResponse =
  Results :: "ApplicationResult slice"
  PermanentFailures :: "SignedMessage list"
  PermanentErrors :: "error list"
  SuccessfulMessages :: "SignedMessage list"
  TemporaryFailures :: "SignedMessage list"
  TemporaryErrors :: "error list"

subsection \<open>The block\<close>

record TxMeta =
  SecpRoot :: Cid
  BLSRoot :: Cid

record Block =
  Miner :: Address
  Height :: uint64
  Messages :: TxMeta
  MessageReceipts :: Cid
  Parents :: TipSetKey
  ParentWeight :: uint64
  ElectionProof :: VRFPi
  StateRoot :: Cid
  Tickets :: "Ticket list"
  Timestamp :: uint64
  BLSAggregateSig :: bytes
  BlockSig :: bytes

text \<open>
  Modelled from the spec: \<open>types.NewBlockHeight\<close> is declared in the absent package
  \<open>types\<close>. The specification has one height for the block, the ancestor lookup and the
  message application, so the conversion of the \<open>uint64\<close> to the unbounded block height
  keeps its value.
\<close>

definition NewBlockHeight :: "uint64 \<Rightarrow> nat" where
  "NewBlockHeight h = unat h"

subsection \<open>The worker and its collaborators\<close>

text \<open>
  \<open>Generate\<close> is a method of \<open>DefaultWorker\<close> and reaches everything else through the
  worker's fields and through methods of types declared elsewhere (tip set, power table,
  state tree, storage map, message queue, block, signed message). None of them is in the
  file, so each is a field of the record below and every theorem holds for all of them.
  The type variables are the tip set \<open>'ts\<close>, the state tree \<open>'st\<close>, the power table
  \<open>'pt\<close>, the storage map \<open>'vms\<close> and the message pool \<open>'p\<close> behind
  \<open>w.messageSource\<close>. The state tree and the storage map are mutated by the processor; the
  model hands the mutated values back. \<open>Pending\<close> reads the pool and \<open>Remove\<close> is the only
  request that changes it: the comments of the two loops at the end of \<open>Generate\<close> take a
  failed message to be still in the pool after \<open>Pending\<close> (a permanent failure is removed
  there, a temporary one is left in the pool), and \<open>Drain\<close> empties a queue built from
  the slice that \<open>Pending\<close> returned.
\<close>

record ('ts, 'st, 'pt, 'vms, 'p) DefaultWorker =
  minerAddr :: Address
  minerOwnerAddr :: Address
  getStateTree :: "'ts \<Rightarrow> error + 'st"
  getPowerTable :: "TipSetKey \<Rightarrow> error + 'pt"
  getWeight :: "'ts \<Rightarrow> error + uint64"
  getAncestors :: "'ts \<Rightarrow> nat \<Rightarrow> error + 'ts list"
  messageSource_Pending :: "'p \<Rightarrow> SignedMessage list"
  messageSource_Remove :: "'p \<Rightarrow> Cid \<Rightarrow> 'p"
  processor_ApplyMessagesAndPayRewards ::
    "'st \<Rightarrow> 'vms \<Rightarrow> SignedMessage list \<Rightarrow> Address \<Rightarrow> nat \<Rightarrow> 'ts list
       \<Rightarrow> error + (ApplyMessagesResponse \<times> 'st \<times> 'vms)"
  messageStore_StoreMessages ::
    "SignedMessage list \<Rightarrow> UnsignedMessage list \<Rightarrow> error + TxMeta"
  messageStore_StoreReceipts :: "MessageReceipt slice \<Rightarrow> error + Cid"
  clock_Now_Unix :: uint64
  api_MinerGetWorkerAddress :: "Address \<Rightarrow> TipSetKey \<Rightarrow> error + Address"
  workerSigner_SignBytes :: "bytes \<Rightarrow> Address \<Rightarrow> error + bytes"
  TipSet_Key :: "'ts \<Rightarrow> TipSetKey"
  TipSet_Height :: "'ts \<Rightarrow> error + uint64"
  PowerTable_HasPower :: "'pt \<Rightarrow> Address \<Rightarrow> bool"
  MessageQueue_Drain :: "SignedMessage list \<Rightarrow> SignedMessage list"
  vm_NewStorageMap :: "'vms"
  StateTree_Flush :: "'st \<Rightarrow> error + Cid"
  StorageMap_Flush :: "'vms \<Rightarrow> error option"
  Block_SignatureData :: "Block \<Rightarrow> bytes"
  SignedMessage_Cid :: "SignedMessage \<Rightarrow> error + Cid"
  bls :: bls_package

text \<open>
  The calls \<open>Generate\<close> makes on its collaborators, in the order it makes them, with the
  arguments and the results the properties speak about. \<open>MessageQueue_Drain\<close> stands for
  \<open>NewMessageQueue(pending).Drain()\<close>, which works on a queue local to the call.
\<close>

datatype call =
    Call_getStateTree
  | Call_getPowerTable
  | Call_HasPower bool
  | Call_getWeight
  | Call_getAncestors nat
  | Call_Pending
  | Call_ApplyMessages "SignedMessage list" nat "error + ApplyMessagesResponse"
  | Call_StateTree_Flush "error + Cid"
  | Call_StorageMap_Flush "error option"
  | Call_StoreMessages "SignedMessage list" "UnsignedMessage list" "error + TxMeta"
  | Call_StoreReceipts "MessageReceipt slice" "error + Cid"
  | Call_clock_Now
  | Call_MinerGetWorkerAddress
  | Call_SignBytes "error + bytes"
  | Call_Remove Cid
  | Call_LogInfof
  | Call_LogWarnf

record 'p world =
  pool :: 'p
  calls :: "call list"

definition emit :: "call \<Rightarrow> 'p world \<Rightarrow> 'p world" where
  "emit c s = s\<lparr>calls := calls s @ [c]\<rparr>"

text \<open>
  \<open>Generate\<close> returns a block, returns an error, or panics: the two loops at its end
  index the error slices of the response by the position in the failure slices, which is
  out of range when an error slice is the shorter one.
\<close>

datatype generate_result = Block_ok Block | Generate_error error | Runtime_panic

subsection \<open>Generate\<close>

text \<open>The loop that collects the receipts, starting from the zero-length slice.\<close>

fun collectReceipts ::
  "MessageReceipt slice \<Rightarrow> ApplicationResult list \<Rightarrow> MessageReceipt slice" where
  "collectReceipts receipts [] = receipts"
| "collectReceipts receipts (r # results) =
     collectReceipts (append_slice receipts (Receipt r)) results"

text \<open>
  The loop over \<open>res.PermanentFailures\<close>. The flag of the result is \<open>False\<close> when the
  loop panicked at \<open>res.PermanentErrors[i]\<close>, which is evaluated for the log line before
  anything else happens in the iteration.
\<close>

fun removePermanentFailures ::
  "('ts, 'st, 'pt, 'vms, 'p) DefaultWorker \<Rightarrow> error list \<Rightarrow> nat \<Rightarrow> SignedMessage list
     \<Rightarrow> 'p world \<Rightarrow> bool \<times> 'p world" where
  "removePermanentFailures w permanentErrors i [] s = (True, s)"
| "removePermanentFailures w permanentErrors i (msg # failures) s =
     (if i < length permanentErrors
      then (case SignedMessage_Cid w msg of
              Inr mc \<Rightarrow>
                removePermanentFailures w permanentErrors (Suc i) failures
                  (emit (Call_Remove mc)
                     ((emit Call_LogInfof s)\<lparr>pool :=
                        messageSource_Remove w (pool (emit Call_LogInfof s)) mc\<rparr>))
            | Inl err \<Rightarrow>
                removePermanentFailures w permanentErrors (Suc i) failures
                  (emit Call_LogWarnf (emit Call_LogInfof s)))
      else (False, s))"

text \<open>The loop over \<open>res.TemporaryFailures\<close>, which only logs.\<close>

fun logTemporaryFailures ::
  "error list \<Rightarrow> nat \<Rightarrow> SignedMessage list \<Rightarrow> 'p world \<Rightarrow> bool \<times> 'p world" where
  "logTemporaryFailures temporaryErrors i [] s = (True, s)"
| "logTemporaryFailures temporaryErrors i (msg # failures) s =
     (if i < length temporaryErrors
      then logTemporaryFailures temporaryErrors (Suc i) failures (emit Call_LogInfof s)
      else (False, s))"

text \<open>
  \<open>Generate\<close>, statement by statement. The timer and its deferred log line are left out
  (they read the wall clock and touch nothing else).
\<close>

definition Generate ::
  "('ts, 'st, 'pt, 'vms, 'p) DefaultWorker \<Rightarrow> 'ts \<Rightarrow> Ticket list \<Rightarrow> VRFPi \<Rightarrow> uint64
     \<Rightarrow> 'p world \<Rightarrow> generate_result \<times> 'p world" where
  "Generate w baseTipSet tickets electionProof nullBlockCount s0 =
    (let s1 = emit Call_getStateTree s0 in
     case getStateTree w baseTipSet of
       Inl err \<Rightarrow> (Generate_error (Wrap err ''get state tree''), s1)
     | Inr stateTree \<Rightarrow>
    (let s2 = emit Call_getPowerTable s1 in
     case getPowerTable w (TipSet_Key w baseTipSet) of
       Inl err \<Rightarrow> (Generate_error (Wrap err ''get power table''), s2)
     | Inr powerTable \<Rightarrow>
    (let hasPower = PowerTable_HasPower w powerTable (minerAddr w);
         s3 = emit (Call_HasPower hasPower) s2 in
     if \<not> hasPower
     then (Generate_error
             (Error ''bad miner address, miner must store files before mining''), s3)
     else
    (let s4 = emit Call_getWeight s3 in
     case getWeight w baseTipSet of
       Inl err \<Rightarrow> (Generate_error (Wrap err ''get weight''), s4)
     | Inr weight \<Rightarrow>
    (case TipSet_Height w baseTipSet of
       Inl err \<Rightarrow> (Generate_error (Wrap err ''get base tip set height''), s4)
     | Inr baseHeight \<Rightarrow>
    (let blockHeight = baseHeight + nullBlockCount + 1;
         s5 = emit (Call_getAncestors (NewBlockHeight blockHeight)) s4 in
     case getAncestors w baseTipSet (NewBlockHeight blockHeight) of
       Inl err \<Rightarrow> (Generate_error (Wrap err ''get base tip set ancestors''), s5)
     | Inr ancestors \<Rightarrow>
    (let pending = messageSource_Pending w (pool s5);
         s6 = emit Call_Pending s5;
         (secpMessages, blsMessages) = divideMessages (MessageQueue_Drain w pending);
         messages = blsMessages @ secpMessages;
         vms = vm_NewStorageMap w;
         applied = processor_ApplyMessagesAndPayRewards w stateTree vms messages
                     (minerOwnerAddr w) (NewBlockHeight blockHeight) ancestors;
         s7 = emit (Call_ApplyMessages messages (NewBlockHeight blockHeight)
                      (map_sum id fst applied)) s6 in
     case applied of
       Inl err \<Rightarrow> (Generate_error (Wrap err ''generate apply messages''), s7)
     | Inr (res, stateTree', vms') \<Rightarrow>
    (let flushedTree = StateTree_Flush w stateTree';
         s8 = emit (Call_StateTree_Flush flushedTree) s7 in
     case flushedTree of
       Inl err \<Rightarrow> (Generate_error (Wrap err ''generate flush state tree''), s8)
     | Inr newStateTreeCid \<Rightarrow>
    (let flushedMap = StorageMap_Flush w vms';
         s9 = emit (Call_StorageMap_Flush flushedMap) s8 in
     case flushedMap of
       Some err \<Rightarrow> (Generate_error (Wrap err ''generate flush vm storage map''), s9)
     | None \<Rightarrow>
    (let receipts = collectReceipts (Slice []) (elems (Results res));
         (minedSecpMessages, minedBLSMessages) = divideMessages (SuccessfulMessages res) in
     case aggregateBLS (bls w) minedBLSMessages of
       Inl err \<Rightarrow> (Generate_error (Wrap err ''could not aggregate bls messages''), s9)
     | Inr (unwrappedBLSMessages, blsAggregateSig) \<Rightarrow>
    (let storedMessages =
           messageStore_StoreMessages w minedSecpMessages unwrappedBLSMessages;
         s10 = emit (Call_StoreMessages minedSecpMessages unwrappedBLSMessages
                       storedMessages) s9 in
     case storedMessages of
       Inl err \<Rightarrow> (Generate_error (Wrap err ''error persisting messages''), s10)
     | Inr txMeta \<Rightarrow>
    (let storedReceipts = messageStore_StoreReceipts w receipts;
         s11 = emit (Call_StoreReceipts receipts storedReceipts) s10 in
     case storedReceipts of
       Inl err \<Rightarrow> (Generate_error (Wrap err ''error persisting receipts''), s11)
     | Inr rcptsCid \<Rightarrow>
    (let s12 = emit Call_clock_Now s11;
         next = \<lparr>Miner = minerAddr w,
                 Height = blockHeight,
                 Messages = txMeta,
                 MessageReceipts = rcptsCid,
                 Parents = TipSet_Key w baseTipSet,
                 ParentWeight = weight,
                 ElectionProof = electionProof,
                 StateRoot = newStateTreeCid,
                 Tickets = tickets,
                 Timestamp = clock_Now_Unix w,
                 BLSAggregateSig = blsAggregateSig,
                 BlockSig = []\<rparr>;
         s13 = emit Call_MinerGetWorkerAddress s12 in
     case api_MinerGetWorkerAddress w (minerAddr w) (TipSet_Key w baseTipSet) of
       Inl err \<Rightarrow>
         (Generate_error (Wrap err ''failed to read workerAddr during block generation''),
          s13)
     | Inr workerAddr \<Rightarrow>
    (let signed = workerSigner_SignBytes w (Block_SignatureData w next) workerAddr;
         s14 = emit (Call_SignBytes signed) s13 in
     case signed of
       Inl err \<Rightarrow> (Generate_error (Wrap err ''failed to sign block''), s14)
     | Inr blockSig \<Rightarrow>
    (case removePermanentFailures w (PermanentErrors res) 0 (PermanentFailures res) s14 of
       (False, s15) \<Rightarrow> (Runtime_panic, s15)
     | (True, s15) \<Rightarrow>
    (case logTemporaryFailures (TemporaryErrors res) 0 (TemporaryFailures res) s15 of
       (False, s16) \<Rightarrow> (Runtime_panic, s16)
     | (True, s16) \<Rightarrow> (Block_ok (next\<lparr>BlockSig := blockSig\<rparr>), s16)
    ))))))))))))))))"

subsection \<open>Reading a run\<close>

text \<open>The block of a result, when there is one.\<close>

fun blockOf :: "generate_result \<Rightarrow> Block option" where
  "blockOf (Block_ok b) = Some b"
| "blockOf (Generate_error e) = None"
| "blockOf Runtime_panic = None"

text \<open>The calls made by the two loops at the end of \<open>Generate\<close>.\<close>

fun reconcile_call :: "call \<Rightarrow> bool" where
  "reconcile_call (Call_Remove mc) = True"
| "reconcile_call Call_LogInfof = True"
| "reconcile_call Call_LogWarnf = True"
| "reconcile_call _ = False"

fun is_Remove :: "call \<Rightarrow> bool" where
  "is_Remove (Call_Remove mc) = True"
| "is_Remove _ = False"

fun block_signed :: "call \<Rightarrow> bool" where
  "block_signed (Call_SignBytes (Inr blockSig)) = True"
| "block_signed _ = False"

fun messages_applied :: "call \<Rightarrow> bool" where
  "messages_applied (Call_ApplyMessages messages h (Inr res)) = True"
| "messages_applied _ = False"

fun is_StateTree_Flush :: "call \<Rightarrow> bool" where
  "is_StateTree_Flush (Call_StateTree_Flush r) = True"
| "is_StateTree_Flush _ = False"

fun tree_flushed :: "call \<Rightarrow> bool" where
  "tree_flushed (Call_StateTree_Flush (Inr c)) = True"
| "tree_flushed _ = False"

fun is_StorageMap_Flush :: "call \<Rightarrow> bool" where
  "is_StorageMap_Flush (Call_StorageMap_Flush r) = True"
| "is_StorageMap_Flush _ = False"

fun map_flushed :: "call \<Rightarrow> bool" where
  "map_flushed (Call_StorageMap_Flush None) = True"
| "map_flushed _ = False"

text \<open>The calls that build the block once the state is flushed.\<close>

fun block_building :: "call \<Rightarrow> bool" where
  "block_building (Call_StoreMessages secp unwrapped r) = True"
| "block_building (Call_StoreReceipts receipts r) = True"
| "block_building Call_clock_Now = True"
| "block_building Call_MinerGetWorkerAddress = True"
| "block_building (Call_SignBytes r) = True"
| "block_building _ = False"

text \<open>
  \<open>preceded_by P Q cs\<close>: scanning \<open>cs\<close> from its start, no call that satisfies \<open>Q\<close>
  is met before a call that satisfies \<open>P\<close>.
\<close>

fun preceded_by :: "('a \<Rightarrow> bool) \<Rightarrow> ('a \<Rightarrow> bool) \<Rightarrow> 'a list \<Rightarrow> bool" where
  "preceded_by P Q [] = True"
| "preceded_by P Q (c # cs) = (if P c then True else if Q c then False else preceded_by P Q cs)"

subsection \<open>A concrete worker\<close>

text \<open>
  A worker over a pool that is a list of messages, used to run \<open>Generate\<close> on concrete
  inputs. Its parameters are the height of the base tip set, the answer of the power
  table, the response of the processor and the results of the two flushes. A message is
  removed from the pool by its content identifier, for which the signature stands in.
\<close>

definition exampleWorker ::
  "uint64 \<Rightarrow> bool \<Rightarrow> ApplyMessagesResponse \<Rightarrow> error + Cid \<Rightarrow> error option
     \<Rightarrow> (unit, unit, unit, unit, SignedMessage list) DefaultWorker" where
  "exampleWorker baseHeight hasPower res treeFlush mapFlush =
     \<lparr>minerAddr = \<lparr>Protocol = 0, Payload = [1]\<rparr>,
      minerOwnerAddr = \<lparr>Protocol = 1, Payload = [2]\<rparr>,
      getStateTree = (\<lambda>ts. Inr ()),
      getPowerTable = (\<lambda>k. Inr ()),
      getWeight = (\<lambda>ts. Inr 7),
      getAncestors = (\<lambda>ts h. Inr []),
      messageSource_Pending = (\<lambda>p. p),
      messageSource_Remove = (\<lambda>p mc. filter (\<lambda>m. Signature m \<noteq> mc) p),
      processor_ApplyMessagesAndPayRewards = (\<lambda>st vms ms owner h anc. Inr (res, (), ())),
      messageStore_StoreMessages = (\<lambda>secp unwrapped. Inr \<lparr>SecpRoot = [1], BLSRoot = [2]\<rparr>),
      messageStore_StoreReceipts = (\<lambda>receipts. Inr [3]),
      clock_Now_Unix = 1000,
      api_MinerGetWorkerAddress = (\<lambda>a k. Inr \<lparr>Protocol = 3, Payload = [9]\<rparr>),
      workerSigner_SignBytes = (\<lambda>data a. Inr [5]),
      TipSet_Key = (\<lambda>ts. []),
      TipSet_Height = (\<lambda>ts. Inr baseHeight),
      PowerTable_HasPower = (\<lambda>pt a. hasPower),
      MessageQueue_Drain = (\<lambda>ms. ms),
      vm_NewStorageMap = (),
      StateTree_Flush = (\<lambda>st. treeFlush),
      StorageMap_Flush = (\<lambda>vms. mapFlush),
      Block_SignatureData = (\<lambda>b. []),
      SignedMessage_Cid = (\<lambda>m. Inr (Signature m)),
      bls = \<lparr>SignatureBytes = 96, Aggregate = (\<lambda>sigs. Some (replicate 96 0))\<rparr>\<rparr>"

text \<open>A message from a sender of the given protocol, told apart by a tag byte.\<close>

definition exampleMessage :: "Protocol \<Rightarrow> 8 word \<Rightarrow> SignedMessage" where
  "exampleMessage proto tag =
     \<lparr>Message = \<lparr>From = \<lparr>Protocol = proto, Payload = [tag]\<rparr>, Body = []\<rparr>,
      Signature = [tag]\<rparr>"

definition exampleReceipt :: "8 word \<Rightarrow> ApplicationResult" where
  "exampleReceipt code =
     \<lparr>Receipt = \<lparr>ExitCode = code, ReturnValue = [], GasUsed = 0\<rparr>, ExecutionError = None\<rparr>"

text \<open>A response in which nothing was applied and nothing failed.\<close>

definition emptyResponse :: ApplyMessagesResponse where
  "emptyResponse =
     \<lparr>Results = nil_slice, PermanentFailures = [], PermanentErrors = [],
      SuccessfulMessages = [], TemporaryFailures = [], TemporaryErrors = []\<rparr>"

text \<open>
  A response with two receipts and one permanent failure, the message of tag 1.
\<close>

definition failingResponse :: ApplyMessagesResponse where
  "failingResponse =
     \<lparr>Results = Slice [exampleReceipt 0, exampleReceipt 1],
      PermanentFailures = [exampleMessage 1 1],
      PermanentErrors = [Error ''nonce too low''],
      SuccessfulMessages = [exampleMessage 3 2, exampleMessage 3 4],
      TemporaryFailures = [exampleMessage 2 3],
      TemporaryErrors = [Error ''insufficient gas'']\<rparr>"

text \<open>
  A pool of four pending messages: one Secp sender (protocol 1), one actor sender
  (protocol 2) and two BLS senders (protocol 3), the BLS messages not in front.
\<close>

definition examplePool :: "SignedMessage list world" where
  "examplePool =
     \<lparr>pool = [exampleMessage 1 1, exampleMessage 3 2, exampleMessage 2 3, exampleMessage 3 4],
      calls = []\<rparr>"

text \<open>
  A worker that tells the arguments it is given apart. Over the pool \<open>examplePool\<close> and
  a base tip set of height 10, its ancestor lookup accepts height 11 only, its processor
  accepts only the state tree 0 of the base tip set, the fresh storage map 0, height 11
  and the BLS-first message list, and answers with the tree 1 and the map 1; the flushes
  succeed on the tree 1 and the map 1 only, and the message store accepts only the two
  receipts of the response.
\<close>

definition strictWorker :: "(unit, nat, unit, nat, SignedMessage list) DefaultWorker" where
  "strictWorker =
     \<lparr>minerAddr = \<lparr>Protocol = 0, Payload = [1]\<rparr>,
      minerOwnerAddr = \<lparr>Protocol = 1, Payload = [2]\<rparr>,
      getStateTree = (\<lambda>ts. Inr 0),
      getPowerTable = (\<lambda>k. Inr ()),
      getWeight = (\<lambda>ts. Inr 7),
      getAncestors = (\<lambda>ts h. if h = 11 then Inr [] else Inl (Error ''bad height'')),
      messageSource_Pending = (\<lambda>p. p),
      messageSource_Remove = (\<lambda>p mc. filter (\<lambda>m. Signature m \<noteq> mc) p),
      processor_ApplyMessagesAndPayRewards =
        (\<lambda>st vms ms owner h anc.
           if st = 0 \<and> vms = 0 \<and> h = 11 \<and>
              ms = [exampleMessage 3 2, exampleMessage 3 4, exampleMessage 1 1,
                    exampleMessage 2 3]
           then Inr (failingResponse, 1, 1) else Inl (Error ''bad apply'')),
      messageStore_StoreMessages = (\<lambda>secp unwrapped. Inr \<lparr>SecpRoot = [1], BLSRoot = [2]\<rparr>),
      messageStore_StoreReceipts =
        (\<lambda>receipts.
           if receipts = Slice [Receipt (exampleReceipt 0), Receipt (exampleReceipt 1)]
           then Inr [3] else Inl (Error ''bad receipts'')),
      clock_Now_Unix = 1000,
      api_MinerGetWorkerAddress = (\<lambda>a k. Inr \<lparr>Protocol = 3, Payload = [9]\<rparr>),
      workerSigner_SignBytes = (\<lambda>data a. Inr [5]),
      TipSet_Key = (\<lambda>ts. []),
      TipSet_Height = (\<lambda>ts. Inr 10),
      PowerTable_HasPower = (\<lambda>pt a. True),
      MessageQueue_Drain = (\<lambda>ms. ms),
      vm_NewStorageMap = 0,
      StateTree_Flush = (\<lambda>st. if st = 1 then Inr [4] else Inl (Error ''stale tree'')),
      StorageMap_Flush = (\<lambda>vms. if vms = 1 then None else Some (Error ''stale map'')),
      Block_SignatureData = (\<lambda>b. []),
      SignedMessage_Cid = (\<lambda>m. Inr (Signature m)),
      bls = \<lparr>SignatureBytes = 96, Aggregate = (\<lambda>sigs. Some (replicate 96 0))\<rparr>\<rparr>"

section \<open>Properties\<close>

subsection \<open>The partition loop\<close>

lemma divideLoop_filter:
  "divideLoop accS accB ms =
     (accS @ filter (\<lambda>m. \<not> isBLS m) ms, accB @ filter isBLS ms)"
  by (induction ms arbitrary: accS accB) (simp_all add: isBLS_def)

lemma divideMessages_filter:
  "divideMessages ms = (filter (\<lambda>m. \<not> isBLS m) ms, filter isBLS ms)"
  by (simp add: divideMessages_def divideLoop_filter)

lemma aggregateLoop_map:
  "aggregateLoop pkg sigs un ms =
     (sigs @ map (\<lambda>m. toBLSSignature pkg (Signature m)) ms, un @ map Message ms)"
  by (induction ms arbitrary: sigs un) simp_all

lemma aggregateBLS_eq:
  "aggregateBLS pkg ms =
     (case Aggregate pkg (map (\<lambda>m. toBLSSignature pkg (Signature m)) ms) of
        None \<Rightarrow> Inl (Error ''could not aggregate signatures'')
      | Some agg \<Rightarrow> Inr (map Message ms, agg))"
  by (simp add: aggregateBLS_def aggregateLoop_map)

lemma length_toBLSSignature: "length (toBLSSignature pkg sig) = SignatureBytes pkg"
  by (simp add: toBLSSignature_def copy_bytes_def)

lemma toBLSSignature_pad:
  "toBLSSignature pkg sig =
     take (SignatureBytes pkg) sig @ replicate (SignatureBytes pkg - length sig) 0"
  by (simp add: toBLSSignature_def copy_bytes_def)

lemma toBLSSignature_idem:
  "toBLSSignature pkg (toBLSSignature pkg sig) = toBLSSignature pkg sig"
  using length_toBLSSignature [of pkg sig]
  by (simp add: toBLSSignature_pad [of pkg "toBLSSignature pkg sig"])

subsection \<open>Claims about divideMessages\<close>

text \<open>
  Claim C2. For every input sequence, the two results of \<open>divideMessages\<close> are
  subsequences of the input (each keeps the relative order of the input), they share no
  message, and together they hold every message of the input exactly as often as the
  input does: nothing is lost and nothing is duplicated.
\<close>

theorem divideMessages_partition:
  "(case divideMessages ms of
      (secpMessages, blsMessages) \<Rightarrow>
        subseq secpMessages ms \<and> subseq blsMessages ms \<and>
        set secpMessages \<inter> set blsMessages = {} \<and>
        mset secpMessages + mset blsMessages = mset ms)"
proof -
  have "mset (filter (\<lambda>m. \<not> isBLS m) ms) + mset (filter isBLS ms) = mset ms"
    by (induction ms) simp_all
  moreover have "set (filter (\<lambda>m. \<not> isBLS m) ms) \<inter> set (filter isBLS ms) = {}"
    by auto
  ultimately show ?thesis
    by (simp add: divideMessages_filter)
qed

text \<open>
  An input with a repeated Secp message: both copies stay, in order, in the Secp slice.
\<close>

theorem divideMessages_partition_witness:
  "divideMessages
     [exampleMessage 1 1, exampleMessage 3 2, exampleMessage 1 1, exampleMessage 3 4] =
     ([exampleMessage 1 1, exampleMessage 1 1], [exampleMessage 3 2, exampleMessage 3 4]) \<and>
   mset [exampleMessage 1 1, exampleMessage 1 1] + mset [exampleMessage 3 2, exampleMessage 3 4] =
     mset [exampleMessage 1 1, exampleMessage 3 2, exampleMessage 1 1, exampleMessage 3 4] \<and>
   set [exampleMessage 1 1, exampleMessage 1 1] \<inter>
     set [exampleMessage 3 2, exampleMessage 3 4] = {}"
proof -
  have d: "divideMessages
     [exampleMessage 1 1, exampleMessage 3 2, exampleMessage 1 1, exampleMessage 3 4] =
     ([exampleMessage 1 1, exampleMessage 1 1], [exampleMessage 3 2, exampleMessage 3 4])"
    by (simp add: divideMessages_def exampleMessage_def address_BLS_def)
  from divideMessages_partition
    [of "[exampleMessage 1 1, exampleMessage 3 2, exampleMessage 1 1, exampleMessage 3 4]"]
  show ?thesis unfolding d by simp
qed

text \<open>
  Claim C9. \<open>divideMessages\<close> looks at nothing but whether the protocol of the sender
  equals \<open>address.BLS\<close>: its first result (the Secp slice) is the input restricted to the
  messages of every other protocol, whatever that protocol is, and its second result (the
  BLS slice) is the input restricted to the messages whose protocol is BLS.
\<close>

theorem divideMessages_classification:
  "fst (divideMessages ms) =
     filter (\<lambda>m. Protocol (From (Message m)) \<noteq> address_BLS) ms \<and>
   snd (divideMessages ms) =
     filter (\<lambda>m. Protocol (From (Message m)) = address_BLS) ms"
  by (simp add: divideMessages_filter isBLS_def [abs_def])

text \<open>
  Senders of the actor protocol (2) and of the unknown protocol (255) land in the Secp
  slice beside the Secp sender (1).
\<close>

theorem divideMessages_classification_witness:
  "fst (divideMessages [exampleMessage 2 3, exampleMessage 3 4, exampleMessage 255 5,
          exampleMessage 1 1]) =
     [exampleMessage 2 3, exampleMessage 255 5, exampleMessage 1 1] \<and>
   snd (divideMessages [exampleMessage 2 3, exampleMessage 3 4, exampleMessage 255 5,
          exampleMessage 1 1]) =
     [exampleMessage 3 4]"
  using divideMessages_classification
    [of "[exampleMessage 2 3, exampleMessage 3 4, exampleMessage 255 5, exampleMessage 1 1]"]
  by (simp add: exampleMessage_def address_BLS_def)

subsection \<open>Claims about aggregateBLS\<close>

text \<open>
  Claim C10. \<open>aggregateBLS\<close> never checks the length of a signature. The value handed
  to the aggregation has the fixed size whatever the length of the message's signature:
  its first bytes are those of the signature, a short signature is padded with zero
  bytes and the bytes of a long one beyond the fixed size are dropped. The result of
  \<open>aggregateBLS\<close> is decided by the aggregation of these fixed-size values alone, so it
  is the same as on the messages whose signatures were padded or cut beforehand: the only
  error is the one raised when the aggregation itself returns nil.
\<close>

theorem aggregateBLS_no_length_check:
  "length (toBLSSignature pkg sig) = SignatureBytes pkg \<and>
   toBLSSignature pkg sig =
     take (SignatureBytes pkg) sig @ replicate (SignatureBytes pkg - length sig) 0 \<and>
   aggregateBLS pkg ms =
     (case Aggregate pkg (map (\<lambda>m. toBLSSignature pkg (Signature m)) ms) of
        None \<Rightarrow> Inl (Error ''could not aggregate signatures'')
      | Some agg \<Rightarrow> Inr (map Message ms, agg)) \<and>
   aggregateBLS pkg (map (\<lambda>m. m\<lparr>Signature := toBLSSignature pkg (Signature m)\<rparr>) ms) =
     aggregateBLS pkg ms"
  by (simp add: length_toBLSSignature toBLSSignature_pad [symmetric] aggregateBLS_eq
      toBLSSignature_idem comp_def split: option.split)

text \<open>
  With a fixed size of four bytes, the one-byte signature is padded to four bytes and
  the six-byte signature is cut to four; no error is returned.
\<close>

theorem aggregateBLS_no_length_check_witness:
  "toBLSSignature \<lparr>SignatureBytes = 4, Aggregate = (\<lambda>sigs. Some (concat sigs))\<rparr> [7] =
     [7, 0, 0, 0] \<and>
   toBLSSignature \<lparr>SignatureBytes = 4, Aggregate = (\<lambda>sigs. Some (concat sigs))\<rparr>
     [1, 2, 3, 4, 5, 6] = [1, 2, 3, 4] \<and>
   aggregateBLS \<lparr>SignatureBytes = 4, Aggregate = (\<lambda>sigs. Some (concat sigs))\<rparr>
     [\<lparr>Message = Message (exampleMessage 3 1), Signature = [7]\<rparr>,
      \<lparr>Message = Message (exampleMessage 3 2), Signature = [1, 2, 3, 4, 5, 6]\<rparr>] =
     Inr ([Message (exampleMessage 3 1), Message (exampleMessage 3 2)],
          [7, 0, 0, 0, 1, 2, 3, 4])"
  using aggregateBLS_no_length_check
    [of "\<lparr>SignatureBytes = 4, Aggregate = (\<lambda>sigs. Some (concat sigs))\<rparr>" "[7]"
        "[\<lparr>Message = Message (exampleMessage 3 1), Signature = [7]\<rparr>,
          \<lparr>Message = Message (exampleMessage 3 2), Signature = [1, 2, 3, 4, 5, 6]\<rparr>]"]
    aggregateBLS_no_length_check
    [of "\<lparr>SignatureBytes = 4, Aggregate = (\<lambda>sigs. Some (concat sigs))\<rparr>"
        "[1, 2, 3, 4, 5, 6]" "[]"]
  by (simp add: numeral_eq_Suc)

text \<open>
  Claim C4. On the empty sequence of BLS messages \<open>aggregateBLS\<close> returns no error: it
  hands the empty list of signatures to the aggregation, which by the specification
  yields the identity aggregate, and returns that aggregate with an empty list of
  unwrapped messages.
\<close>

theorem aggregateBLS_empty:
  "aggregateBLS \<lparr>SignatureBytes = n, Aggregate = spec_Aggregate identitySig scheme\<rparr> [] =
     Inr ([], identitySig)"
  by (simp add: aggregateBLS_def spec_Aggregate_def)

subsection \<open>The loops and the trace of Generate\<close>

text \<open>
  What \<open>preceded_by\<close> says, by positions: every call that satisfies \<open>Q\<close> has a call
  that satisfies \<open>P\<close> at its own position or before it.
\<close>

lemma preceded_by_iff:
  "preceded_by P Q cs \<longleftrightarrow> (\<forall>j<length cs. Q (cs ! j) \<longrightarrow> (\<exists>i\<le>j. P (cs ! i)))"
proof (induction cs)
  case Nil
  then show ?case by simp
next
  case (Cons c cs)
  show ?case
  proof (cases "P c")
    case True
    then show ?thesis by auto
  next
    case False
    show ?thesis
    proof (cases "Q c")
      case True
      with False show ?thesis by auto
    next
      case notQ: False
      have "(\<forall>j<length (c # cs). Q ((c # cs) ! j) \<longrightarrow> (\<exists>i\<le>j. P ((c # cs) ! i))) \<longleftrightarrow>
            (\<forall>j<length cs. Q (cs ! j) \<longrightarrow> (\<exists>i\<le>j. P (cs ! i)))"
        (is "?L \<longleftrightarrow> ?R")
      proof
        assume L: ?L
        show ?R
        proof (intro allI impI)
          fix j assume j: "j < length cs" "Q (cs ! j)"
          with L obtain i where i: "i \<le> Suc j" "P ((c # cs) ! i)"
            by (metis length_Cons nth_Cons_Suc Suc_less_eq)
          with False obtain i' where "i = Suc i'" by (cases i) auto
          with i show "\<exists>i\<le>j. P (cs ! i)" by auto
        qed
      next
        assume R: ?R
        show ?L
        proof (intro allI impI)
          fix j assume j: "j < length (c # cs)" "Q ((c # cs) ! j)"
          with notQ obtain j' where j': "j = Suc j'" by (cases j) auto
          with j R obtain i where "i \<le> j'" "P (cs ! i)" by auto
          with j' show "\<exists>i\<le>j. P ((c # cs) ! i)" by (intro exI [of _ "Suc i"]) simp
        qed
      qed
      with False notQ Cons.IH show ?thesis by simp
    qed
  qed
qed

text \<open>
  Both loops only add calls to the trace, and the calls they add are removals and log
  lines; the loop over the temporary failures leaves the pool alone.
\<close>

lemma removePermanentFailures_calls:
  "removePermanentFailures w errs i ms s = (b, s') \<Longrightarrow>
     \<exists>extra. calls s' = calls s @ extra \<and> list_all reconcile_call extra"
proof (induction ms arbitrary: i s)
  case Nil
  then show ?case by auto
next
  case (Cons m ms)
  show ?case
  proof (cases "i < length errs")
    case False
    with Cons.prems show ?thesis by auto
  next
    case True
    show ?thesis
    proof (cases "SignedMessage_Cid w m")
      case (Inl e)
      with True Cons.prems
      have "removePermanentFailures w errs (Suc i) ms
              (emit Call_LogWarnf (emit Call_LogInfof s)) = (b, s')"
        by simp
      from Cons.IH [OF this] show ?thesis by (auto simp: emit_def)
    next
      case (Inr mc)
      with True Cons.prems
      have "removePermanentFailures w errs (Suc i) ms
              (emit (Call_Remove mc)
                 ((emit Call_LogInfof s)\<lparr>pool :=
                    messageSource_Remove w (pool (emit Call_LogInfof s)) mc\<rparr>)) = (b, s')"
        by simp
      from Cons.IH [OF this] show ?thesis by (auto simp: emit_def)
    qed
  qed
qed

lemma logTemporaryFailures_calls:
  "logTemporaryFailures errs i ms s = (b, s') \<Longrightarrow>
     pool s' = pool s \<and>
     (\<exists>extra. calls s' = calls s @ extra \<and> list_all reconcile_call extra)"
proof (induction ms arbitrary: i s)
  case Nil
  then show ?case by auto
next
  case (Cons m ms)
  show ?case
  proof (cases "i < length errs")
    case False
    with Cons.prems show ?thesis by auto
  next
    case True
    with Cons.prems
    have "logTemporaryFailures errs (Suc i) ms (emit Call_LogInfof s) = (b, s')"
      by simp
    from Cons.IH [OF this] show ?thesis by (auto simp: emit_def)
  qed
qed

lemma reconcile_only:
  "list_all reconcile_call extra \<Longrightarrow> \<not> reconcile_call c \<Longrightarrow> c \<in> set extra \<longleftrightarrow> False"
  by (auto simp: list_all_iff)

lemma collectReceipts_map:
  "collectReceipts (Slice acc) rs = Slice (acc @ map Receipt rs)"
  by (induction rs arbitrary: acc) (simp_all add: append_slice_def)

lemma filter_first_order:
  assumes "i < length (filter P xs @ filter (\<lambda>x. \<not> P x) xs)"
    and "j < length (filter P xs @ filter (\<lambda>x. \<not> P x) xs)"
    and "P ((filter P xs @ filter (\<lambda>x. \<not> P x) xs) ! j)"
    and "\<not> P ((filter P xs @ filter (\<lambda>x. \<not> P x) xs) ! i)"
  shows "j < i"
proof -
  have a: "\<And>k. k < length (filter P xs) \<Longrightarrow> P (filter P xs ! k)"
    using nth_mem by fastforce
  have b: "\<And>k. k < length (filter (\<lambda>x. \<not> P x) xs) \<Longrightarrow> \<not> P (filter (\<lambda>x. \<not> P x) xs ! k)"
    using nth_mem by fastforce
  have "j < length (filter P xs)"
  proof (rule ccontr)
    assume "\<not> j < length (filter P xs)"
    with assms(2,3) b [of "j - length (filter P xs)"] show False
      by (simp add: nth_append)
  qed
  moreover have "\<not> i < length (filter P xs)"
    using assms(4) a [of i] by (auto simp: nth_append)
  ultimately show ?thesis by simp
qed

lemmas Generate_unfold = Generate_def Let_def emit_def
lemmas Generate_splits = sum.splits if_splits prod.splits option.splits bool.splits

lemmas example_defs =
  exampleWorker_def exampleMessage_def exampleReceipt_def emptyResponse_def
  failingResponse_def examplePool_def address_BLS_def isBLS_def divideMessages_def
  aggregateBLS_def toBLSSignature_def copy_bytes_def NewBlockHeight_def append_slice_def

subsection \<open>The data flow of Generate\<close>

text \<open>
  A produced block fixes the whole run: every collaborator was applied to the value the
  source hands it and answered with the value the block carries. The message applier
  received the state tree of the base tip set, a fresh storage map, the BLS messages of
  the drained sequence followed by the others, and the height of the new block; the state
  tree and the storage map that were flushed are the ones the applier returned.
\<close>

lemma Generate_block_run:
  assumes "fst (Generate w baseTipSet tickets electionProof nullBlockCount
             \<lparr>pool = p, calls = []\<rparr>) = Block_ok b"
  shows "\<exists>stateTree powerTable weight baseHeight ancestors res stateTree' vms' unwrapped.
           getStateTree w baseTipSet = Inr stateTree \<and>
           getPowerTable w (TipSet_Key w baseTipSet) = Inr powerTable \<and>
           PowerTable_HasPower w powerTable (minerAddr w) \<and>
           getWeight w baseTipSet = Inr weight \<and>
           TipSet_Height w baseTipSet = Inr baseHeight \<and>
           getAncestors w baseTipSet (unat (baseHeight + nullBlockCount + 1)) = Inr ancestors \<and>
           processor_ApplyMessagesAndPayRewards w stateTree (vm_NewStorageMap w)
             (filter isBLS (MessageQueue_Drain w (messageSource_Pending w p)) @
              filter (\<lambda>m. \<not> isBLS m) (MessageQueue_Drain w (messageSource_Pending w p)))
             (minerOwnerAddr w) (unat (baseHeight + nullBlockCount + 1)) ancestors =
             Inr (res, stateTree', vms') \<and>
           StateTree_Flush w stateTree' = Inr (StateRoot b) \<and>
           StorageMap_Flush w vms' = None \<and>
           aggregateBLS (bls w) (filter isBLS (SuccessfulMessages res)) =
             Inr (unwrapped, BLSAggregateSig b) \<and>
           messageStore_StoreMessages w
             (filter (\<lambda>m. \<not> isBLS m) (SuccessfulMessages res)) unwrapped =
             Inr (Messages b) \<and>
           messageStore_StoreReceipts w (Slice (map Receipt (elems (Results res)))) =
             Inr (MessageReceipts b) \<and>
           Height b = baseHeight + nullBlockCount + 1 \<and>
           ParentWeight b = weight"
  using assms
  by (auto simp: Generate_unfold NewBlockHeight_def divideMessages_filter collectReceipts_map
      split: Generate_splits)

lemma Generate_block_receipts:
  assumes "fst (Generate w baseTipSet tickets electionProof nullBlockCount
             \<lparr>pool = p, calls = []\<rparr>) = Block_ok b"
  shows "\<exists>stateTree baseHeight ancestors res stateTree' vms'.
           getStateTree w baseTipSet = Inr stateTree \<and>
           TipSet_Height w baseTipSet = Inr baseHeight \<and>
           getAncestors w baseTipSet (unat (baseHeight + nullBlockCount + 1)) = Inr ancestors \<and>
           processor_ApplyMessagesAndPayRewards w stateTree (vm_NewStorageMap w)
             (filter isBLS (MessageQueue_Drain w (messageSource_Pending w p)) @
              filter (\<lambda>m. \<not> isBLS m) (MessageQueue_Drain w (messageSource_Pending w p)))
             (minerOwnerAddr w) (unat (baseHeight + nullBlockCount + 1)) ancestors =
             Inr (res, stateTree', vms') \<and>
           messageStore_StoreReceipts w (Slice (map Receipt (elems (Results res)))) =
             Inr (MessageReceipts b) \<and>
           Call_StoreReceipts (Slice (map Receipt (elems (Results res))))
             (Inr (MessageReceipts b)) \<in>
             set (calls (snd (Generate w baseTipSet tickets electionProof nullBlockCount
                \<lparr>pool = p, calls = []\<rparr>)))"
  using assms
  by (auto simp: Generate_unfold NewBlockHeight_def divideMessages_filter collectReceipts_map
      split: Generate_splits
      dest!: removePermanentFailures_calls logTemporaryFailures_calls)

text \<open>
  The runs that end at the message applier or at one of the two flushes, given what the
  collaborators answer to the arguments the source passes them.
\<close>

lemma Generate_apply_error:
  assumes "getStateTree w baseTipSet = Inr stateTree"
    and "getPowerTable w (TipSet_Key w baseTipSet) = Inr powerTable"
    and "PowerTable_HasPower w powerTable (minerAddr w)"
    and "getWeight w baseTipSet = Inr weight"
    and "TipSet_Height w baseTipSet = Inr baseHeight"
    and "getAncestors w baseTipSet (unat (baseHeight + nullBlockCount + 1)) = Inr ancestors"
    and "processor_ApplyMessagesAndPayRewards w stateTree (vm_NewStorageMap w)
             (filter isBLS (MessageQueue_Drain w (messageSource_Pending w p)) @
              filter (\<lambda>m. \<not> isBLS m) (MessageQueue_Drain w (messageSource_Pending w p)))
             (minerOwnerAddr w) (unat (baseHeight + nullBlockCount + 1)) ancestors = Inl err"
  shows "Generate w baseTipSet tickets electionProof nullBlockCount \<lparr>pool = p, calls = []\<rparr> =
           (Generate_error (Wrap err ''generate apply messages''),
            \<lparr>pool = p,
             calls = [Call_getStateTree, Call_getPowerTable, Call_HasPower True, Call_getWeight,
                      Call_getAncestors (unat (baseHeight + nullBlockCount + 1)), Call_Pending,
                      Call_ApplyMessages
                        (filter isBLS (MessageQueue_Drain w (messageSource_Pending w p)) @
                         filter (\<lambda>m. \<not> isBLS m)
                           (MessageQueue_Drain w (messageSource_Pending w p)))
                        (unat (baseHeight + nullBlockCount + 1)) (Inl err)]\<rparr>)"
  using assms
  by (simp add: Generate_unfold NewBlockHeight_def divideMessages_filter)

lemma Generate_applied_recorded:
  assumes "getStateTree w baseTipSet = Inr stateTree"
    and "getPowerTable w (TipSet_Key w baseTipSet) = Inr powerTable"
    and "PowerTable_HasPower w powerTable (minerAddr w)"
    and "getWeight w baseTipSet = Inr weight"
    and "TipSet_Height w baseTipSet = Inr baseHeight"
    and "getAncestors w baseTipSet (unat (baseHeight + nullBlockCount + 1)) = Inr ancestors"
    and "processor_ApplyMessagesAndPayRewards w stateTree (vm_NewStorageMap w)
             (filter isBLS (MessageQueue_Drain w (messageSource_Pending w p)) @
              filter (\<lambda>m. \<not> isBLS m) (MessageQueue_Drain w (messageSource_Pending w p)))
             (minerOwnerAddr w) (unat (baseHeight + nullBlockCount + 1)) ancestors =
             Inr (res, stateTree', vms')"
  shows "Call_ApplyMessages
           (filter isBLS (MessageQueue_Drain w (messageSource_Pending w p)) @
            filter (\<lambda>m. \<not> isBLS m) (MessageQueue_Drain w (messageSource_Pending w p)))
           (unat (baseHeight + nullBlockCount + 1)) (Inr res) \<in>
         set (calls (snd (Generate w baseTipSet tickets electionProof nullBlockCount
            \<lparr>pool = p, calls = []\<rparr>)))"
  using assms
  by (auto simp: Generate_unfold NewBlockHeight_def divideMessages_filter
      split: Generate_splits
      dest!: removePermanentFailures_calls logTemporaryFailures_calls)

lemma Generate_tree_flush_error:
  assumes "getStateTree w baseTipSet = Inr stateTree"
    and "getPowerTable w (TipSet_Key w baseTipSet) = Inr powerTable"
    and "PowerTable_HasPower w powerTable (minerAddr w)"
    and "getWeight w baseTipSet = Inr weight"
    and "TipSet_Height w baseTipSet = Inr baseHeight"
    and "getAncestors w baseTipSet (unat (baseHeight + nullBlockCount + 1)) = Inr ancestors"
    and "processor_ApplyMessagesAndPayRewards w stateTree (vm_NewStorageMap w)
             (filter isBLS (MessageQueue_Drain w (messageSource_Pending w p)) @
              filter (\<lambda>m. \<not> isBLS m) (MessageQueue_Drain w (messageSource_Pending w p)))
             (minerOwnerAddr w) (unat (baseHeight + nullBlockCount + 1)) ancestors =
             Inr (res, stateTree', vms')"
    and "StateTree_Flush w stateTree' = Inl err"
  shows "Generate w baseTipSet tickets electionProof nullBlockCount \<lparr>pool = p, calls = []\<rparr> =
           (Generate_error (Wrap err ''generate flush state tree''),
            \<lparr>pool = p,
             calls = [Call_getStateTree, Call_getPowerTable, Call_HasPower True, Call_getWeight,
                      Call_getAncestors (unat (baseHeight + nullBlockCount + 1)), Call_Pending,
                      Call_ApplyMessages
                        (filter isBLS (MessageQueue_Drain w (messageSource_Pending w p)) @
                         filter (\<lambda>m. \<not> isBLS m)
                           (MessageQueue_Drain w (messageSource_Pending w p)))
                        (unat (baseHeight + nullBlockCount + 1)) (Inr res),
                      Call_StateTree_Flush (Inl err)]\<rparr>)"
  using assms
  by (simp add: Generate_unfold NewBlockHeight_def divideMessages_filter)

lemma Generate_map_flush_error:
  assumes "getStateTree w baseTipSet = Inr stateTree"
    and "getPowerTable w (TipSet_Key w baseTipSet) = Inr powerTable"
    and "PowerTable_HasPower w powerTable (minerAddr w)"
    and "getWeight w baseTipSet = Inr weight"
    and "TipSet_Height w baseTipSet = Inr baseHeight"
    and "getAncestors w baseTipSet (unat (baseHeight + nullBlockCount + 1)) = Inr ancestors"
    and "processor_ApplyMessagesAndPayRewards w stateTree (vm_NewStorageMap w)
             (filter isBLS (MessageQueue_Drain w (messageSource_Pending w p)) @
              filter (\<lambda>m. \<not> isBLS m) (MessageQueue_Drain w (messageSource_Pending w p)))
             (minerOwnerAddr w) (unat (baseHeight + nullBlockCount + 1)) ancestors =
             Inr (res, stateTree', vms')"
    and "StateTree_Flush w stateTree' = Inr newStateTreeCid"
    and "StorageMap_Flush w vms' = Some err"
  shows "Generate w baseTipSet tickets electionProof nullBlockCount \<lparr>pool = p, calls = []\<rparr> =
           (Generate_error (Wrap err ''generate flush vm storage map''),
            \<lparr>pool = p,
             calls = [Call_getStateTree, Call_getPowerTable, Call_HasPower True, Call_getWeight,
                      Call_getAncestors (unat (baseHeight + nullBlockCount + 1)), Call_Pending,
                      Call_ApplyMessages
                        (filter isBLS (MessageQueue_Drain w (messageSource_Pending w p)) @
                         filter (\<lambda>m. \<not> isBLS m)
                           (MessageQueue_Drain w (messageSource_Pending w p)))
                        (unat (baseHeight + nullBlockCount + 1)) (Inr res),
                      Call_StateTree_Flush (Inr newStateTreeCid),
                      Call_StorageMap_Flush (Some err)]\<rparr>)"
  using assms
  by (simp add: Generate_unfold NewBlockHeight_def divideMessages_filter)

text \<open>
  The stage label of a returned error tells which collaborator failed, and on which
  argument.
\<close>

lemma Generate_ancestors_error:
  assumes "fst (Generate w baseTipSet tickets electionProof nullBlockCount
             \<lparr>pool = p, calls = []\<rparr>) =
           Generate_error (Wrap err ''get base tip set ancestors'')"
    and "TipSet_Height w baseTipSet = Inr baseHeight"
  shows "getAncestors w baseTipSet (unat (baseHeight + nullBlockCount + 1)) = Inl err"
  using assms
  by (auto simp: Generate_unfold NewBlockHeight_def split: Generate_splits)

lemma Generate_apply_error_result:
  assumes "fst (Generate w baseTipSet tickets electionProof nullBlockCount
             \<lparr>pool = p, calls = []\<rparr>) =
           Generate_error (Wrap err ''generate apply messages'')"
  shows "\<exists>stateTree baseHeight ancestors.
           getStateTree w baseTipSet = Inr stateTree \<and>
           TipSet_Height w baseTipSet = Inr baseHeight \<and>
           getAncestors w baseTipSet (unat (baseHeight + nullBlockCount + 1)) = Inr ancestors \<and>
           processor_ApplyMessagesAndPayRewards w stateTree (vm_NewStorageMap w)
             (filter isBLS (MessageQueue_Drain w (messageSource_Pending w p)) @
              filter (\<lambda>m. \<not> isBLS m) (MessageQueue_Drain w (messageSource_Pending w p)))
             (minerOwnerAddr w) (unat (baseHeight + nullBlockCount + 1)) ancestors = Inl err"
  using assms
  by (auto simp: Generate_unfold NewBlockHeight_def divideMessages_filter
      split: Generate_splits)

lemma Generate_receipts_error:
  assumes "fst (Generate w baseTipSet tickets electionProof nullBlockCount
             \<lparr>pool = p, calls = []\<rparr>) =
           Generate_error (Wrap err ''error persisting receipts'')"
  shows "\<exists>stateTree baseHeight ancestors res stateTree' vms'.
           getStateTree w baseTipSet = Inr stateTree \<and>
           TipSet_Height w baseTipSet = Inr baseHeight \<and>
           getAncestors w baseTipSet (unat (baseHeight + nullBlockCount + 1)) = Inr ancestors \<and>
           processor_ApplyMessagesAndPayRewards w stateTree (vm_NewStorageMap w)
             (filter isBLS (MessageQueue_Drain w (messageSource_Pending w p)) @
              filter (\<lambda>m. \<not> isBLS m) (MessageQueue_Drain w (messageSource_Pending w p)))
             (minerOwnerAddr w) (unat (baseHeight + nullBlockCount + 1)) ancestors =
             Inr (res, stateTree', vms') \<and>
           messageStore_StoreReceipts w (Slice (map Receipt (elems (Results res)))) = Inl err"
  using assms
  by (auto simp: Generate_unfold NewBlockHeight_def divideMessages_filter collectReceipts_map
      split: Generate_splits)

text \<open>
  What the trace of a run holds: the message list and the heights of the calls, the
  receipts handed to the store, and the order of application, flushes and block building.
\<close>

lemma Generate_apply_trace:
  assumes "Call_ApplyMessages messages h r \<in>
             set (calls (snd (Generate w baseTipSet tickets electionProof nullBlockCount
                \<lparr>pool = p, calls = []\<rparr>)))"
  shows "messages =
           filter isBLS (MessageQueue_Drain w (messageSource_Pending w p)) @
           filter (\<lambda>m. \<not> isBLS m) (MessageQueue_Drain w (messageSource_Pending w p))"
  using assms
  by (auto simp: Generate_unfold divideMessages_filter reconcile_only
      split: Generate_splits
      dest!: removePermanentFailures_calls logTemporaryFailures_calls)

lemma Generate_height_trace:
  assumes "TipSet_Height w baseTipSet = Inr baseHeight"
  shows "(\<forall>a. Call_getAncestors a \<in>
               set (calls (snd (Generate w baseTipSet tickets electionProof nullBlockCount
                  \<lparr>pool = p, calls = []\<rparr>)))
             \<longrightarrow> a = unat (baseHeight + nullBlockCount + 1)) \<and>
         (\<forall>ms a r. Call_ApplyMessages ms a r \<in>
               set (calls (snd (Generate w baseTipSet tickets electionProof nullBlockCount
                  \<lparr>pool = p, calls = []\<rparr>)))
             \<longrightarrow> a = unat (baseHeight + nullBlockCount + 1)) \<and>
         (\<forall>b. fst (Generate w baseTipSet tickets electionProof nullBlockCount
                  \<lparr>pool = p, calls = []\<rparr>) = Block_ok b
             \<longrightarrow> Height b = baseHeight + nullBlockCount + 1) \<and>
         unat (baseHeight + nullBlockCount + 1) =
           (unat baseHeight + unat nullBlockCount + 1) mod 2 ^ 64 \<and>
         (unat baseHeight + unat nullBlockCount + 1 < 2 ^ 64 \<longrightarrow>
            unat (baseHeight + nullBlockCount + 1) = unat baseHeight + unat nullBlockCount + 1)"
proof -
  have wrap: "unat (baseHeight + nullBlockCount + 1) =
           (unat baseHeight + unat nullBlockCount + 1) mod 2 ^ 64"
    by (simp add: unat_word_ariths mod_simps)
  have 1: "\<forall>a. Call_getAncestors a \<in>
               set (calls (snd (Generate w baseTipSet tickets electionProof nullBlockCount
                  \<lparr>pool = p, calls = []\<rparr>)))
             \<longrightarrow> a = unat (baseHeight + nullBlockCount + 1)"
    using assms
    by (auto simp: Generate_def Let_def emit_def NewBlockHeight_def reconcile_only
        split: sum.splits if_splits prod.splits option.splits bool.splits
        dest!: removePermanentFailures_calls logTemporaryFailures_calls)
  have 2: "\<forall>ms a r. Call_ApplyMessages ms a r \<in>
               set (calls (snd (Generate w baseTipSet tickets electionProof nullBlockCount
                  \<lparr>pool = p, calls = []\<rparr>)))
             \<longrightarrow> a = unat (baseHeight + nullBlockCount + 1)"
    using assms
    by (auto simp: Generate_def Let_def emit_def NewBlockHeight_def reconcile_only
        split: sum.splits if_splits prod.splits option.splits bool.splits
        dest!: removePermanentFailures_calls logTemporaryFailures_calls)
  have 3: "\<forall>b. fst (Generate w baseTipSet tickets electionProof nullBlockCount
                  \<lparr>pool = p, calls = []\<rparr>) = Block_ok b
             \<longrightarrow> Height b = baseHeight + nullBlockCount + 1"
    using assms
    by (auto simp: Generate_def Let_def
        split: sum.splits if_splits prod.splits option.splits bool.splits)
  from wrap 1 2 3 show ?thesis by simp
qed

lemma Generate_receipts_trace:
  assumes "Call_StoreReceipts receipts stored \<in>
             set (calls (snd (Generate w baseTipSet tickets electionProof nullBlockCount
                \<lparr>pool = p, calls = []\<rparr>)))"
  shows "(\<exists>messages h res.
            Call_ApplyMessages messages h (Inr res) \<in>
              set (calls (snd (Generate w baseTipSet tickets electionProof nullBlockCount
                 \<lparr>pool = p, calls = []\<rparr>))) \<and>
            receipts = Slice (map Receipt (elems (Results res))) \<and>
            length (elems receipts) = length (elems (Results res)) \<and>
            (\<forall>i<length (elems (Results res)).
               elems receipts ! i = Receipt (elems (Results res) ! i)) \<and>
            (elems (Results res) = [] \<longrightarrow> receipts = Slice [])) \<and>
         receipts \<noteq> nil_slice \<and>
         (\<forall>b. fst (Generate w baseTipSet tickets electionProof nullBlockCount
                  \<lparr>pool = p, calls = []\<rparr>) = Block_ok b \<longrightarrow>
              stored = Inr (MessageReceipts b))"
proof -
  have 1: "\<exists>messages h res.
            Call_ApplyMessages messages h (Inr res) \<in>
              set (calls (snd (Generate w baseTipSet tickets electionProof nullBlockCount
                 \<lparr>pool = p, calls = []\<rparr>))) \<and>
            receipts = Slice (map Receipt (elems (Results res)))"
    using assms
    by (auto simp: Generate_unfold reconcile_only collectReceipts_map split: Generate_splits
        dest!: removePermanentFailures_calls logTemporaryFailures_calls)
  have 2: "\<forall>b. fst (Generate w baseTipSet tickets electionProof nullBlockCount
                  \<lparr>pool = p, calls = []\<rparr>) = Block_ok b \<longrightarrow>
              stored = Inr (MessageReceipts b)"
    using assms
    by (auto simp: Generate_unfold reconcile_only split: Generate_splits
        dest!: removePermanentFailures_calls logTemporaryFailures_calls)
  from 1 obtain messages h res where
    a: "Call_ApplyMessages messages h (Inr res) \<in>
              set (calls (snd (Generate w baseTipSet tickets electionProof nullBlockCount
                 \<lparr>pool = p, calls = []\<rparr>)))"
    and r: "receipts = Slice (map Receipt (elems (Results res)))"
    by blast
  from r have "length (elems receipts) = length (elems (Results res))"
    and "\<forall>i<length (elems (Results res)).
               elems receipts ! i = Receipt (elems (Results res) ! i)"
    and "elems (Results res) = [] \<longrightarrow> receipts = Slice []"
    and "receipts \<noteq> nil_slice"
    by simp_all
  with a r 2 show ?thesis by blast
qed

lemma Generate_flush_trace:
  "(\<forall>ms h res. Call_ApplyMessages ms h (Inr res) \<in>
        set (calls (snd (Generate w baseTipSet tickets electionProof nullBlockCount
           \<lparr>pool = p, calls = []\<rparr>))) \<longrightarrow>
      list_ex is_StateTree_Flush
        (calls (snd (Generate w baseTipSet tickets electionProof nullBlockCount
           \<lparr>pool = p, calls = []\<rparr>)))) \<and>
   (\<forall>c. Call_StateTree_Flush (Inr c) \<in>
        set (calls (snd (Generate w baseTipSet tickets electionProof nullBlockCount
           \<lparr>pool = p, calls = []\<rparr>))) \<longrightarrow>
      list_ex is_StorageMap_Flush
        (calls (snd (Generate w baseTipSet tickets electionProof nullBlockCount
           \<lparr>pool = p, calls = []\<rparr>)))) \<and>
   preceded_by messages_applied is_StateTree_Flush
     (calls (snd (Generate w baseTipSet tickets electionProof nullBlockCount
        \<lparr>pool = p, calls = []\<rparr>))) \<and>
   preceded_by tree_flushed is_StorageMap_Flush
     (calls (snd (Generate w baseTipSet tickets electionProof nullBlockCount
        \<lparr>pool = p, calls = []\<rparr>))) \<and>
   preceded_by map_flushed block_building
     (calls (snd (Generate w baseTipSet tickets electionProof nullBlockCount
        \<lparr>pool = p, calls = []\<rparr>))) \<and>
   (\<forall>e. Call_StateTree_Flush (Inl e) \<in>
        set (calls (snd (Generate w baseTipSet tickets electionProof nullBlockCount
           \<lparr>pool = p, calls = []\<rparr>))) \<longrightarrow>
      fst (Generate w baseTipSet tickets electionProof nullBlockCount
           \<lparr>pool = p, calls = []\<rparr>) =
        Generate_error (Wrap e ''generate flush state tree'')) \<and>
   (\<forall>e. Call_StorageMap_Flush (Some e) \<in>
        set (calls (snd (Generate w baseTipSet tickets electionProof nullBlockCount
           \<lparr>pool = p, calls = []\<rparr>))) \<longrightarrow>
      fst (Generate w baseTipSet tickets electionProof nullBlockCount
           \<lparr>pool = p, calls = []\<rparr>) =
        Generate_error (Wrap e ''generate flush vm storage map'')) \<and>
   (\<forall>b. fst (Generate w baseTipSet tickets electionProof nullBlockCount
           \<lparr>pool = p, calls = []\<rparr>) = Block_ok b \<longrightarrow>
      Call_StateTree_Flush (Inr (StateRoot b)) \<in>
        set (calls (snd (Generate w baseTipSet tickets electionProof nullBlockCount
           \<lparr>pool = p, calls = []\<rparr>))) \<and>
      Call_StorageMap_Flush None \<in>
        set (calls (snd (Generate w baseTipSet tickets electionProof nullBlockCount
           \<lparr>pool = p, calls = []\<rparr>))))"
  (is "?A \<and> ?B \<and> ?C \<and> ?D \<and> ?E \<and> ?F \<and> ?G \<and> ?H")
proof -
  have ?A
    by (auto simp: Generate_unfold reconcile_only split: Generate_splits
        dest!: removePermanentFailures_calls logTemporaryFailures_calls)
  moreover have ?B
    by (auto simp: Generate_unfold reconcile_only split: Generate_splits
        dest!: removePermanentFailures_calls logTemporaryFailures_calls)
  moreover have ?C
    by (auto simp: Generate_unfold split: Generate_splits
        dest!: removePermanentFailures_calls logTemporaryFailures_calls)
  moreover have ?D
    by (auto simp: Generate_unfold split: Generate_splits
        dest!: removePermanentFailures_calls logTemporaryFailures_calls)
  moreover have ?E
    by (auto simp: Generate_unfold split: Generate_splits
        dest!: removePermanentFailures_calls logTemporaryFailures_calls)
  moreover have ?F
    by (auto simp: Generate_unfold reconcile_only split: Generate_splits
        dest!: removePermanentFailures_calls logTemporaryFailures_calls)
  moreover have ?G
    by (auto simp: Generate_unfold reconcile_only split: Generate_splits
        dest!: removePermanentFailures_calls logTemporaryFailures_calls)
  moreover have ?H
    by (auto simp: Generate_unfold split: Generate_splits
        dest!: removePermanentFailures_calls logTemporaryFailures_calls)
  ultimately show ?thesis by blast
qed

subsection \<open>Claims about Generate\<close>

text \<open>
  Claim C1. The sequence \<open>Generate\<close> passes to the message applier is the BLS messages
  of the drained sequence, in their drained order, followed by the messages that are not
  BLS, in their drained order. It is the argument of the applier itself: when the applier
  fails on that sequence \<open>Generate\<close> returns that error, when it succeeds on it the call
  is in the trace with its response, and a produced block carries the state root flushed
  from the tree the applier returned for that sequence. No other message list reaches the
  applier, and in the sequence every BLS message stands before every message that is not
  BLS, whatever the order in the pool was.
\<close>

theorem Generate_bls_first:
  "(\<forall>stateTree powerTable weight baseHeight ancestors.
      getStateTree w baseTipSet = Inr stateTree \<and>
      getPowerTable w (TipSet_Key w baseTipSet) = Inr powerTable \<and>
      PowerTable_HasPower w powerTable (minerAddr w) \<and>
      getWeight w baseTipSet = Inr weight \<and>
      TipSet_Height w baseTipSet = Inr baseHeight \<and>
      getAncestors w baseTipSet (unat (baseHeight + nullBlockCount + 1)) = Inr ancestors \<longrightarrow>
      (\<forall>err.
         processor_ApplyMessagesAndPayRewards w stateTree (vm_NewStorageMap w)
           (filter isBLS (MessageQueue_Drain w (messageSource_Pending w p)) @
            filter (\<lambda>m. \<not> isBLS m) (MessageQueue_Drain w (messageSource_Pending w p)))
           (minerOwnerAddr w) (unat (baseHeight + nullBlockCount + 1)) ancestors = Inl err \<longrightarrow>
         Generate w baseTipSet tickets electionProof nullBlockCount \<lparr>pool = p, calls = []\<rparr> =
           (Generate_error (Wrap err ''generate apply messages''),
            \<lparr>pool = p,
             calls = [Call_getStateTree, Call_getPowerTable, Call_HasPower True, Call_getWeight,
                      Call_getAncestors (unat (baseHeight + nullBlockCount + 1)), Call_Pending,
                      Call_ApplyMessages
                        (filter isBLS (MessageQueue_Drain w (messageSource_Pending w p)) @
                         filter (\<lambda>m. \<not> isBLS m)
                           (MessageQueue_Drain w (messageSource_Pending w p)))
                        (unat (baseHeight + nullBlockCount + 1)) (Inl err)]\<rparr>)) \<and>
      (\<forall>res stateTree' vms'.
         processor_ApplyMessagesAndPayRewards w stateTree (vm_NewStorageMap w)
           (filter isBLS (MessageQueue_Drain w (messageSource_Pending w p)) @
            filter (\<lambda>m. \<not> isBLS m) (MessageQueue_Drain w (messageSource_Pending w p)))
           (minerOwnerAddr w) (unat (baseHeight + nullBlockCount + 1)) ancestors =
           Inr (res, stateTree', vms') \<longrightarrow>
         Call_ApplyMessages
           (filter isBLS (MessageQueue_Drain w (messageSource_Pending w p)) @
            filter (\<lambda>m. \<not> isBLS m) (MessageQueue_Drain w (messageSource_Pending w p)))
           (unat (baseHeight + nullBlockCount + 1)) (Inr res) \<in>
         set (calls (snd (Generate w baseTipSet tickets electionProof nullBlockCount
            \<lparr>pool = p, calls = []\<rparr>))))) \<and>
   (\<forall>b. fst (Generate w baseTipSet tickets electionProof nullBlockCount
            \<lparr>pool = p, calls = []\<rparr>) = Block_ok b \<longrightarrow>
      (\<exists>stateTree baseHeight ancestors res stateTree' vms'.
         getStateTree w baseTipSet = Inr stateTree \<and>
         TipSet_Height w baseTipSet = Inr baseHeight \<and>
         getAncestors w baseTipSet (unat (baseHeight + nullBlockCount + 1)) = Inr ancestors \<and>
         processor_ApplyMessagesAndPayRewards w stateTree (vm_NewStorageMap w)
           (filter isBLS (MessageQueue_Drain w (messageSource_Pending w p)) @
            filter (\<lambda>m. \<not> isBLS m) (MessageQueue_Drain w (messageSource_Pending w p)))
           (minerOwnerAddr w) (unat (baseHeight + nullBlockCount + 1)) ancestors =
           Inr (res, stateTree', vms') \<and>
         StateTree_Flush w stateTree' = Inr (StateRoot b))) \<and>
   (\<forall>messages h r.
      Call_ApplyMessages messages h r \<in>
        set (calls (snd (Generate w baseTipSet tickets electionProof nullBlockCount
           \<lparr>pool = p, calls = []\<rparr>))) \<longrightarrow>
      messages =
        filter isBLS (MessageQueue_Drain w (messageSource_Pending w p)) @
        filter (\<lambda>m. \<not> isBLS m) (MessageQueue_Drain w (messageSource_Pending w p))) \<and>
   (\<forall>i j.
      i < length (filter isBLS (MessageQueue_Drain w (messageSource_Pending w p)) @
                  filter (\<lambda>m. \<not> isBLS m) (MessageQueue_Drain w (messageSource_Pending w p))) \<and>
      j < length (filter isBLS (MessageQueue_Drain w (messageSource_Pending w p)) @
                  filter (\<lambda>m. \<not> isBLS m) (MessageQueue_Drain w (messageSource_Pending w p))) \<and>
      isBLS ((filter isBLS (MessageQueue_Drain w (messageSource_Pending w p)) @
              filter (\<lambda>m. \<not> isBLS m) (MessageQueue_Drain w (messageSource_Pending w p))) ! j) \<and>
      \<not> isBLS ((filter isBLS (MessageQueue_Drain w (messageSource_Pending w p)) @
              filter (\<lambda>m. \<not> isBLS m) (MessageQueue_Drain w (messageSource_Pending w p))) ! i)
      \<longrightarrow> j < i)"
  (is "?A \<and> ?B \<and> ?C \<and> ?D")
proof -
  have ?A
    by (intro allI impI conjI; elim conjE)
       (rule Generate_apply_error Generate_applied_recorded; assumption)+
  moreover have ?B
  proof (intro allI impI)
    fix b
    assume "fst (Generate w baseTipSet tickets electionProof nullBlockCount
            \<lparr>pool = p, calls = []\<rparr>) = Block_ok b"
    from Generate_block_run [OF this] show "\<exists>stateTree baseHeight ancestors res stateTree' vms'.
         getStateTree w baseTipSet = Inr stateTree \<and>
         TipSet_Height w baseTipSet = Inr baseHeight \<and>
         getAncestors w baseTipSet (unat (baseHeight + nullBlockCount + 1)) = Inr ancestors \<and>
         processor_ApplyMessagesAndPayRewards w stateTree (vm_NewStorageMap w)
           (filter isBLS (MessageQueue_Drain w (messageSource_Pending w p)) @
            filter (\<lambda>m. \<not> isBLS m) (MessageQueue_Drain w (messageSource_Pending w p)))
           (minerOwnerAddr w) (unat (baseHeight + nullBlockCount + 1)) ancestors =
           Inr (res, stateTree', vms') \<and>
         StateTree_Flush w stateTree' = Inr (StateRoot b)"
      by blast
  qed
  moreover have ?C
    by (intro allI impI) (rule Generate_apply_trace)
  moreover have ?D
    by (intro allI impI; elim conjE) (rule filter_first_order)
  ultimately show ?thesis by (intro conjI)
qed

text \<open>
  A processor that accepts nothing but the BLS-first list [BLS, BLS, Secp, actor] and
  rejects the pool order [Secp, BLS, actor, BLS]: the run over that pool produces a
  block.
\<close>

theorem Generate_bls_first_witness:
  "processor_ApplyMessagesAndPayRewards strictWorker 0 0 (pool examplePool)
     (minerOwnerAddr strictWorker) 11 [] = Inl (Error ''bad apply'') \<and>
   processor_ApplyMessagesAndPayRewards strictWorker 0 0
     [exampleMessage 3 2, exampleMessage 3 4, exampleMessage 1 1, exampleMessage 2 3]
     (minerOwnerAddr strictWorker) 11 [] = Inr (failingResponse, 1, 1) \<and>
   map_option StateRoot (blockOf (fst (Generate strictWorker () [] [] 0 examplePool))) =
     Some [4] \<and>
   Call_ApplyMessages
     [exampleMessage 3 2, exampleMessage 3 4, exampleMessage 1 1, exampleMessage 2 3] 11
     (Inr failingResponse) \<in>
     set (calls (snd (Generate strictWorker () [] [] 0 examplePool)))"
  using Generate_bls_first
    [where w = strictWorker and baseTipSet = "()" and tickets = "[]" and electionProof = "[]"
       and nullBlockCount = 0 and p = "pool examplePool"]
  by (simp add: Generate_unfold example_defs strictWorker_def)

text \<open>
  Claim C6. If the state tree and the power table were obtained and the power table
  reports no power for the miner, \<open>Generate\<close> returns the error about the miner address,
  the pool is as it was, and the only calls made are the three up to the power check: the
  pending messages were not read, no message was applied, nothing was flushed or stored.
\<close>

theorem Generate_no_power:
  assumes "getStateTree w baseTipSet = Inr stateTree"
    and "getPowerTable w (TipSet_Key w baseTipSet) = Inr powerTable"
    and "\<not> PowerTable_HasPower w powerTable (minerAddr w)"
  shows "Generate w baseTipSet tickets electionProof nullBlockCount \<lparr>pool = p, calls = []\<rparr> =
           (Generate_error (Error ''bad miner address, miner must store files before mining''),
            \<lparr>pool = p, calls = [Call_getStateTree, Call_getPowerTable, Call_HasPower False]\<rparr>)"
  using assms by (simp add: Generate_def Let_def emit_def)

text \<open>
  The run of a worker without power over a pool of one message.
\<close>

theorem Generate_no_power_witness:
  "getStateTree (exampleWorker 10 False emptyResponse (Inr [4]) None) () = Inr () \<and>
   getPowerTable (exampleWorker 10 False emptyResponse (Inr [4]) None)
     (TipSet_Key (exampleWorker 10 False emptyResponse (Inr [4]) None) ()) = Inr () \<and>
   \<not> PowerTable_HasPower (exampleWorker 10 False emptyResponse (Inr [4]) None) ()
        (minerAddr (exampleWorker 10 False emptyResponse (Inr [4]) None)) \<and>
   Generate (exampleWorker 10 False emptyResponse (Inr [4]) None) () [] [] 0
     \<lparr>pool = [exampleMessage 1 1], calls = []\<rparr> =
     (Generate_error (Error ''bad miner address, miner must store files before mining''),
      \<lparr>pool = [exampleMessage 1 1],
       calls = [Call_getStateTree, Call_getPowerTable, Call_HasPower False]\<rparr>)"
proof -
  have a: "getStateTree (exampleWorker 10 False emptyResponse (Inr [4]) None) () = Inr ()"
    and b: "getPowerTable (exampleWorker 10 False emptyResponse (Inr [4]) None)
     (TipSet_Key (exampleWorker 10 False emptyResponse (Inr [4]) None) ()) = Inr ()"
    and c: "\<not> PowerTable_HasPower (exampleWorker 10 False emptyResponse (Inr [4]) None) ()
        (minerAddr (exampleWorker 10 False emptyResponse (Inr [4]) None))"
    by (simp_all add: exampleWorker_def)
  from Generate_no_power [OF a b c] a b c show ?thesis by blast
qed

text \<open>
  Claim C7, amended. For a parent tip set of height \<open>h\<close> and a null block count \<open>n\<close>, the
  height recorded in the produced block is the \<open>uint64\<close> sum \<open>h + n + 1\<close>, and the height
  handed to the ancestor lookup and to the message applier is the value of that sum: it is
  \<open>h + n + 1\<close> modulo \<open>2 ^ 64\<close>, and equals \<open>h + n + 1\<close> exactly whenever
  \<open>h + n + 1 < 2 ^ 64\<close>. The two heights are the arguments of the two calls: a produced
  block means that the ancestor lookup and the applier succeeded at that height, and an
  error of either stage is the error they return at that height.
\<close>

theorem Generate_block_height:
  assumes "TipSet_Height w baseTipSet = Inr baseHeight"
  shows "(\<forall>a. Call_getAncestors a \<in>
               set (calls (snd (Generate w baseTipSet tickets electionProof nullBlockCount
                  \<lparr>pool = p, calls = []\<rparr>)))
             \<longrightarrow> a = unat (baseHeight + nullBlockCount + 1)) \<and>
         (\<forall>ms a r. Call_ApplyMessages ms a r \<in>
               set (calls (snd (Generate w baseTipSet tickets electionProof nullBlockCount
                  \<lparr>pool = p, calls = []\<rparr>)))
             \<longrightarrow> a = unat (baseHeight + nullBlockCount + 1)) \<and>
         (\<forall>b. fst (Generate w baseTipSet tickets electionProof nullBlockCount
                  \<lparr>pool = p, calls = []\<rparr>) = Block_ok b
             \<longrightarrow> Height b = baseHeight + nullBlockCount + 1) \<and>
         unat (baseHeight + nullBlockCount + 1) =
           (unat baseHeight + unat nullBlockCount + 1) mod 2 ^ 64 \<and>
         (unat baseHeight + unat nullBlockCount + 1 < 2 ^ 64 \<longrightarrow>
            unat (baseHeight + nullBlockCount + 1) = unat baseHeight + unat nullBlockCount + 1) \<and>
         (\<forall>b. fst (Generate w baseTipSet tickets electionProof nullBlockCount
                  \<lparr>pool = p, calls = []\<rparr>) = Block_ok b \<longrightarrow>
            (\<exists>stateTree ancestors res stateTree' vms'.
               getStateTree w baseTipSet = Inr stateTree \<and>
               getAncestors w baseTipSet (unat (baseHeight + nullBlockCount + 1)) =
                 Inr ancestors \<and>
               processor_ApplyMessagesAndPayRewards w stateTree (vm_NewStorageMap w)
                 (filter isBLS (MessageQueue_Drain w (messageSource_Pending w p)) @
                  filter (\<lambda>m. \<not> isBLS m) (MessageQueue_Drain w (messageSource_Pending w p)))
                 (minerOwnerAddr w) (unat (baseHeight + nullBlockCount + 1)) ancestors =
                 Inr (res, stateTree', vms'))) \<and>
         (\<forall>err. fst (Generate w baseTipSet tickets electionProof nullBlockCount
                  \<lparr>pool = p, calls = []\<rparr>) =
                Generate_error (Wrap err ''get base tip set ancestors'') \<longrightarrow>
            getAncestors w baseTipSet (unat (baseHeight + nullBlockCount + 1)) = Inl err) \<and>
         (\<forall>err. fst (Generate w baseTipSet tickets electionProof nullBlockCount
                  \<lparr>pool = p, calls = []\<rparr>) =
                Generate_error (Wrap err ''generate apply messages'') \<longrightarrow>
            (\<exists>stateTree ancestors.
               getStateTree w baseTipSet = Inr stateTree \<and>
               getAncestors w baseTipSet (unat (baseHeight + nullBlockCount + 1)) =
                 Inr ancestors \<and>
               processor_ApplyMessagesAndPayRewards w stateTree (vm_NewStorageMap w)
                 (filter isBLS (MessageQueue_Drain w (messageSource_Pending w p)) @
                  filter (\<lambda>m. \<not> isBLS m) (MessageQueue_Drain w (messageSource_Pending w p)))
                 (minerOwnerAddr w) (unat (baseHeight + nullBlockCount + 1)) ancestors =
                 Inl err))"
  (is "?T1 \<and> ?T2 \<and> ?T3 \<and> ?T4 \<and> ?T5 \<and> ?N1 \<and> ?N2 \<and> ?N3")
proof -
  from Generate_height_trace [OF assms]
  have old: "?T1 \<and> ?T2 \<and> ?T3 \<and> ?T4 \<and> ?T5" .
  have ?N1
  proof (intro allI impI)
    fix b
    assume "fst (Generate w baseTipSet tickets electionProof nullBlockCount
            \<lparr>pool = p, calls = []\<rparr>) = Block_ok b"
    from Generate_block_run [OF this] assms
    show "\<exists>stateTree ancestors res stateTree' vms'.
               getStateTree w baseTipSet = Inr stateTree \<and>
               getAncestors w baseTipSet (unat (baseHeight + nullBlockCount + 1)) =
                 Inr ancestors \<and>
               processor_ApplyMessagesAndPayRewards w stateTree (vm_NewStorageMap w)
                 (filter isBLS (MessageQueue_Drain w (messageSource_Pending w p)) @
                  filter (\<lambda>m. \<not> isBLS m) (MessageQueue_Drain w (messageSource_Pending w p)))
                 (minerOwnerAddr w) (unat (baseHeight + nullBlockCount + 1)) ancestors =
                 Inr (res, stateTree', vms')"
      by force
  qed
  moreover have ?N2
    using assms by (intro allI impI) (rule Generate_ancestors_error)
  moreover have ?N3
  proof (intro allI impI)
    fix err
    assume "fst (Generate w baseTipSet tickets electionProof nullBlockCount
            \<lparr>pool = p, calls = []\<rparr>) = Generate_error (Wrap err ''generate apply messages'')"
    from Generate_apply_error_result [OF this] assms
    show "\<exists>stateTree ancestors.
               getStateTree w baseTipSet = Inr stateTree \<and>
               getAncestors w baseTipSet (unat (baseHeight + nullBlockCount + 1)) =
                 Inr ancestors \<and>
               processor_ApplyMessagesAndPayRewards w stateTree (vm_NewStorageMap w)
                 (filter isBLS (MessageQueue_Drain w (messageSource_Pending w p)) @
                  filter (\<lambda>m. \<not> isBLS m) (MessageQueue_Drain w (messageSource_Pending w p)))
                 (minerOwnerAddr w) (unat (baseHeight + nullBlockCount + 1)) ancestors =
                 Inl err"
      by force
  qed
  ultimately show ?thesis using old by (intro conjI) blast+
qed

text \<open>
  Parent height 10 and no null block: the block has height 11 and the ancestors are
  looked up for height 11, also by a worker whose ancestor lookup fails at every other
  height.
\<close>

theorem Generate_block_height_witness:
  "TipSet_Height (exampleWorker 10 True emptyResponse (Inr [4]) None) () = Inr 10 \<and>
   map_option Height
     (blockOf (fst (Generate (exampleWorker 10 True emptyResponse (Inr [4]) None) () [] [] 0
        \<lparr>pool = [], calls = []\<rparr>))) = Some 11 \<and>
   Call_getAncestors 11 \<in>
     set (calls (snd (Generate (exampleWorker 10 True emptyResponse (Inr [4]) None) () [] [] 0
        \<lparr>pool = [], calls = []\<rparr>))) \<and>
   unat (10 + 0 + 1 :: uint64) = 11 \<and>
   TipSet_Height strictWorker () = Inr 10 \<and>
   getAncestors strictWorker () 10 = Inl (Error ''bad height'') \<and>
   getAncestors strictWorker () 11 = Inr [] \<and>
   map_option Height (blockOf (fst (Generate strictWorker () [] [] 0 examplePool))) = Some 11"
proof -
  have h: "TipSet_Height (exampleWorker 10 True emptyResponse (Inr [4]) None) () = Inr 10"
    by (simp add: exampleWorker_def)
  have h': "TipSet_Height strictWorker () = Inr 10"
    by (simp add: strictWorker_def)
  from Generate_block_height
        [OF h, where tickets = "[]" and electionProof = "[]" and nullBlockCount = 0 and p = "[]"]
     Generate_block_height
        [OF h', where tickets = "[]" and electionProof = "[]" and nullBlockCount = 0
           and p = "pool examplePool"]
  show ?thesis
    by (simp add: Generate_unfold example_defs strictWorker_def)
qed

text \<open>
  Claim C7 as stated fails where the sum leaves the range of \<open>uint64\<close>: for parent
  height 10 and the null block count \<open>2 ^ 64 - 1\<close> the block is produced with height 10,
  the height of its parent, and the ancestors are looked up for height 10, while
  \<open>h + n + 1\<close> is 18446744073709551626.
\<close>

theorem Generate_block_height_overflow:
  "TipSet_Height (exampleWorker 10 True emptyResponse (Inr [4]) None) () = Inr 10 \<and>
   map_option (\<lambda>b. unat (Height b))
     (blockOf (fst (Generate (exampleWorker 10 True emptyResponse (Inr [4]) None) () [] []
        18446744073709551615 \<lparr>pool = [], calls = []\<rparr>))) = Some 10 \<and>
   Call_getAncestors 10 \<in>
     set (calls (snd (Generate (exampleWorker 10 True emptyResponse (Inr [4]) None) () [] []
        18446744073709551615 \<lparr>pool = [], calls = []\<rparr>))) \<and>
   unat (10 :: uint64) + unat (18446744073709551615 :: uint64) + 1 = 18446744073709551626"
  by (simp add: Generate_unfold example_defs)

text \<open>
  Claim C3. In every run of \<open>Generate\<close>, no \<open>Remove\<close> is requested from the message
  pool before the block signature has been produced. When \<open>Generate\<close> returns an error,
  the pool is the one it started with and the run requested no \<open>Remove\<close> at all.
\<close>

theorem Generate_reconciles_after_signing:
  "preceded_by block_signed is_Remove
     (calls (snd (Generate w baseTipSet tickets electionProof nullBlockCount
        \<lparr>pool = p, calls = []\<rparr>))) \<and>
   (\<forall>e. fst (Generate w baseTipSet tickets electionProof nullBlockCount
            \<lparr>pool = p, calls = []\<rparr>) = Generate_error e \<longrightarrow>
        pool (snd (Generate w baseTipSet tickets electionProof nullBlockCount
            \<lparr>pool = p, calls = []\<rparr>)) = p \<and>
        \<not> list_ex is_Remove
            (calls (snd (Generate w baseTipSet tickets electionProof nullBlockCount
               \<lparr>pool = p, calls = []\<rparr>))))"
proof -
  have 1: "preceded_by block_signed is_Remove
     (calls (snd (Generate w baseTipSet tickets electionProof nullBlockCount
        \<lparr>pool = p, calls = []\<rparr>)))"
    by (auto simp: Generate_unfold split: Generate_splits
        dest!: removePermanentFailures_calls logTemporaryFailures_calls)
  have 2: "\<forall>e. fst (Generate w baseTipSet tickets electionProof nullBlockCount
            \<lparr>pool = p, calls = []\<rparr>) = Generate_error e \<longrightarrow>
        pool (snd (Generate w baseTipSet tickets electionProof nullBlockCount
            \<lparr>pool = p, calls = []\<rparr>)) = p \<and>
        \<not> list_ex is_Remove
            (calls (snd (Generate w baseTipSet tickets electionProof nullBlockCount
               \<lparr>pool = p, calls = []\<rparr>)))"
    by (auto simp: Generate_unfold split: Generate_splits)
  from 1 2 show ?thesis by simp
qed

text \<open>
  A run whose state tree flush fails although the processor reported a permanent
  failure: the pool is untouched. The same run with a successful flush removes the
  failed message, after the signature.
\<close>

theorem Generate_reconciles_after_signing_witness:
  "fst (Generate (exampleWorker 10 True failingResponse (Inl (Error ''disk full'')) None)
          () [] [] 0 examplePool) =
     Generate_error (Wrap (Error ''disk full'') ''generate flush state tree'') \<and>
   pool (snd (Generate (exampleWorker 10 True failingResponse (Inl (Error ''disk full'')) None)
          () [] [] 0 examplePool)) = pool examplePool \<and>
   \<not> list_ex is_Remove
     (calls (snd (Generate (exampleWorker 10 True failingResponse (Inl (Error ''disk full'')) None)
          () [] [] 0 examplePool))) \<and>
   list_ex is_Remove
     (calls (snd (Generate (exampleWorker 10 True failingResponse (Inr [4]) None)
          () [] [] 0 examplePool))) \<and>
   preceded_by block_signed is_Remove
     (calls (snd (Generate (exampleWorker 10 True failingResponse (Inr [4]) None)
          () [] [] 0 examplePool)))"
proof -
  have e: "fst (Generate (exampleWorker 10 True failingResponse (Inl (Error ''disk full'')) None)
          () [] [] 0 \<lparr>pool = pool examplePool, calls = []\<rparr>) =
     Generate_error (Wrap (Error ''disk full'') ''generate flush state tree'')"
    by (simp add: Generate_unfold example_defs)
  have r: "list_ex is_Remove
     (calls (snd (Generate (exampleWorker 10 True failingResponse (Inr [4]) None)
          () [] [] 0 \<lparr>pool = pool examplePool, calls = []\<rparr>)))"
    by (simp add: Generate_unfold example_defs)
  have p: "\<lparr>pool = pool examplePool, calls = []\<rparr> = examplePool"
    by (simp add: examplePool_def)
  from e r
    Generate_reconciles_after_signing
      [of "exampleWorker 10 True failingResponse (Inl (Error ''disk full'')) None"
          "()" "[]" "[]" 0 "pool examplePool"]
    Generate_reconciles_after_signing
      [of "exampleWorker 10 True failingResponse (Inr [4]) None"
          "()" "[]" "[]" 0 "pool examplePool"]
  show ?thesis unfolding p by blast
qed

text \<open>
  Claim C5. The receipts persisted for a produced block are the receipts of the results
  of the message application, one for each result and in the order of the results: the
  message store, applied to exactly that list, returned the content identifier the block
  records, and the call is in the trace. The list is built by a loop that starts from the
  zero-length slice, so it is never nil and with no result it is the zero-length slice. An
  error about persisting receipts is the error of the store on that list.
\<close>

theorem Generate_receipts:
  "(\<forall>b. fst (Generate w baseTipSet tickets electionProof nullBlockCount
            \<lparr>pool = p, calls = []\<rparr>) = Block_ok b \<longrightarrow>
      (\<exists>stateTree baseHeight ancestors res stateTree' vms'.
         getStateTree w baseTipSet = Inr stateTree \<and>
         TipSet_Height w baseTipSet = Inr baseHeight \<and>
         getAncestors w baseTipSet (unat (baseHeight + nullBlockCount + 1)) = Inr ancestors \<and>
         processor_ApplyMessagesAndPayRewards w stateTree (vm_NewStorageMap w)
           (filter isBLS (MessageQueue_Drain w (messageSource_Pending w p)) @
            filter (\<lambda>m. \<not> isBLS m) (MessageQueue_Drain w (messageSource_Pending w p)))
           (minerOwnerAddr w) (unat (baseHeight + nullBlockCount + 1)) ancestors =
           Inr (res, stateTree', vms') \<and>
         messageStore_StoreReceipts w (Slice (map Receipt (elems (Results res)))) =
           Inr (MessageReceipts b) \<and>
         Call_StoreReceipts (Slice (map Receipt (elems (Results res))))
           (Inr (MessageReceipts b)) \<in>
           set (calls (snd (Generate w baseTipSet tickets electionProof nullBlockCount
              \<lparr>pool = p, calls = []\<rparr>))))) \<and>
   (\<forall>err. fst (Generate w baseTipSet tickets electionProof nullBlockCount
            \<lparr>pool = p, calls = []\<rparr>) =
          Generate_error (Wrap err ''error persisting receipts'') \<longrightarrow>
      (\<exists>stateTree baseHeight ancestors res stateTree' vms'.
         getStateTree w baseTipSet = Inr stateTree \<and>
         TipSet_Height w baseTipSet = Inr baseHeight \<and>
         getAncestors w baseTipSet (unat (baseHeight + nullBlockCount + 1)) = Inr ancestors \<and>
         processor_ApplyMessagesAndPayRewards w stateTree (vm_NewStorageMap w)
           (filter isBLS (MessageQueue_Drain w (messageSource_Pending w p)) @
            filter (\<lambda>m. \<not> isBLS m) (MessageQueue_Drain w (messageSource_Pending w p)))
           (minerOwnerAddr w) (unat (baseHeight + nullBlockCount + 1)) ancestors =
           Inr (res, stateTree', vms') \<and>
         messageStore_StoreReceipts w (Slice (map Receipt (elems (Results res)))) = Inl err)) \<and>
   (\<forall>results.
      collectReceipts (Slice []) results = Slice (map Receipt results) \<and>
      collectReceipts (Slice []) results \<noteq> nil_slice \<and>
      length (elems (collectReceipts (Slice []) results)) = length results \<and>
      (\<forall>i<length results.
         elems (collectReceipts (Slice []) results) ! i = Receipt (results ! i))) \<and>
   (\<forall>receipts stored.
      Call_StoreReceipts receipts stored \<in>
        set (calls (snd (Generate w baseTipSet tickets electionProof nullBlockCount
           \<lparr>pool = p, calls = []\<rparr>))) \<longrightarrow>
      (\<exists>messages h res.
         Call_ApplyMessages messages h (Inr res) \<in>
           set (calls (snd (Generate w baseTipSet tickets electionProof nullBlockCount
              \<lparr>pool = p, calls = []\<rparr>))) \<and>
         receipts = Slice (map Receipt (elems (Results res))) \<and>
         length (elems receipts) = length (elems (Results res)) \<and>
         (\<forall>i<length (elems (Results res)).
            elems receipts ! i = Receipt (elems (Results res) ! i)) \<and>
         (elems (Results res) = [] \<longrightarrow> receipts = Slice [])) \<and>
      receipts \<noteq> nil_slice \<and>
      (\<forall>b. fst (Generate w baseTipSet tickets electionProof nullBlockCount
               \<lparr>pool = p, calls = []\<rparr>) = Block_ok b \<longrightarrow>
           stored = Inr (MessageReceipts b)))"
  (is "?A \<and> ?B \<and> ?C \<and> ?D")
proof -
  have ?A by (intro allI impI) (rule Generate_block_receipts)
  moreover have ?B by (intro allI impI) (rule Generate_receipts_error)
  moreover have ?C by (simp add: collectReceipts_map)
  moreover have ?D by (intro allI impI) (rule Generate_receipts_trace)
  ultimately show ?thesis by (intro conjI)
qed

text \<open>
  A message store that accepts the two receipts of the response and rejects every other
  slice, the nil slice included: the run produces a block. With no result the
  zero-length slice is stored.
\<close>

theorem Generate_receipts_witness:
  "messageStore_StoreReceipts strictWorker nil_slice = Inl (Error ''bad receipts'') \<and>
   messageStore_StoreReceipts strictWorker
     (Slice [Receipt (exampleReceipt 0), Receipt (exampleReceipt 1)]) = Inr [3] \<and>
   map_option MessageReceipts
     (blockOf (fst (Generate strictWorker () [] [] 0 examplePool))) = Some [3] \<and>
   Call_StoreReceipts (Slice [Receipt (exampleReceipt 0), Receipt (exampleReceipt 1)])
     (Inr [3]) \<in>
     set (calls (snd (Generate strictWorker () [] [] 0 examplePool))) \<and>
   Call_StoreReceipts (Slice []) (Inr [3]) \<in>
     set (calls (snd (Generate (exampleWorker 10 True emptyResponse (Inr [4]) None)
        () [] [] 0 \<lparr>pool = [], calls = []\<rparr>))) \<and>
   (Slice [] :: MessageReceipt slice) \<noteq> nil_slice"
  using Generate_receipts
    [where w = strictWorker and baseTipSet = "()" and tickets = "[]" and electionProof = "[]"
       and nullBlockCount = 0 and p = "pool examplePool"]
    Generate_receipts
    [where w = "exampleWorker 10 True emptyResponse (Inr [4]) None" and baseTipSet = "()"
       and tickets = "[]" and electionProof = "[]" and nullBlockCount = 0 and p = "[]"]
  by (simp add: Generate_unfold example_defs strictWorker_def)

text \<open>
  Claim C8. The state tree and the storage map that \<open>Generate\<close> flushes are the ones the
  message applier returned. When the flush of that tree fails, \<open>Generate\<close> returns the
  error of the flush right after it, and when the flush of that map fails, right after
  that: no later call is made and no block is produced. A produced block carries the root
  returned by the flush of the applied tree, and the applied map was flushed without
  error. In the trace, neither flush happens before the application and no call that
  builds the block happens before the storage map was flushed successfully.
\<close>

theorem Generate_flushes:
  "(\<forall>b. fst (Generate w baseTipSet tickets electionProof nullBlockCount
            \<lparr>pool = p, calls = []\<rparr>) = Block_ok b \<longrightarrow>
      (\<exists>stateTree baseHeight ancestors res stateTree' vms'.
         getStateTree w baseTipSet = Inr stateTree \<and>
         TipSet_Height w baseTipSet = Inr baseHeight \<and>
         getAncestors w baseTipSet (unat (baseHeight + nullBlockCount + 1)) = Inr ancestors \<and>
         processor_ApplyMessagesAndPayRewards w stateTree (vm_NewStorageMap w)
           (filter isBLS (MessageQueue_Drain w (messageSource_Pending w p)) @
            filter (\<lambda>m. \<not> isBLS m) (MessageQueue_Drain w (messageSource_Pending w p)))
           (minerOwnerAddr w) (unat (baseHeight + nullBlockCount + 1)) ancestors =
           Inr (res, stateTree', vms') \<and>
         StateTree_Flush w stateTree' = Inr (StateRoot b) \<and>
         StorageMap_Flush w vms' = None)) \<and>
   (\<forall>stateTree powerTable weight baseHeight ancestors res stateTree' vms'.
      getStateTree w baseTipSet = Inr stateTree \<and>
      getPowerTable w (TipSet_Key w baseTipSet) = Inr powerTable \<and>
      PowerTable_HasPower w powerTable (minerAddr w) \<and>
      getWeight w baseTipSet = Inr weight \<and>
      TipSet_Height w baseTipSet = Inr baseHeight \<and>
      getAncestors w baseTipSet (unat (baseHeight + nullBlockCount + 1)) = Inr ancestors \<and>
      processor_ApplyMessagesAndPayRewards w stateTree (vm_NewStorageMap w)
        (filter isBLS (MessageQueue_Drain w (messageSource_Pending w p)) @
         filter (\<lambda>m. \<not> isBLS m) (MessageQueue_Drain w (messageSource_Pending w p)))
        (minerOwnerAddr w) (unat (baseHeight + nullBlockCount + 1)) ancestors =
        Inr (res, stateTree', vms') \<longrightarrow>
      (\<forall>err. StateTree_Flush w stateTree' = Inl err \<longrightarrow>
         Generate w baseTipSet tickets electionProof nullBlockCount \<lparr>pool = p, calls = []\<rparr> =
           (Generate_error (Wrap err ''generate flush state tree''),
            \<lparr>pool = p,
             calls = [Call_getStateTree, Call_getPowerTable, Call_HasPower True, Call_getWeight,
                      Call_getAncestors (unat (baseHeight + nullBlockCount + 1)), Call_Pending,
                      Call_ApplyMessages
                        (filter isBLS (MessageQueue_Drain w (messageSource_Pending w p)) @
                         filter (\<lambda>m. \<not> isBLS m)
                           (MessageQueue_Drain w (messageSource_Pending w p)))
                        (unat (baseHeight + nullBlockCount + 1)) (Inr res),
                      Call_StateTree_Flush (Inl err)]\<rparr>)) \<and>
      (\<forall>newStateTreeCid err.
         StateTree_Flush w stateTree' = Inr newStateTreeCid \<and>
         StorageMap_Flush w vms' = Some err \<longrightarrow>
         Generate w baseTipSet tickets electionProof nullBlockCount \<lparr>pool = p, calls = []\<rparr> =
           (Generate_error (Wrap err ''generate flush vm storage map''),
            \<lparr>pool = p,
             calls = [Call_getStateTree, Call_getPowerTable, Call_HasPower True, Call_getWeight,
                      Call_getAncestors (unat (baseHeight + nullBlockCount + 1)), Call_Pending,
                      Call_ApplyMessages
                        (filter isBLS (MessageQueue_Drain w (messageSource_Pending w p)) @
                         filter (\<lambda>m. \<not> isBLS m)
                           (MessageQueue_Drain w (messageSource_Pending w p)))
                        (unat (baseHeight + nullBlockCount + 1)) (Inr res),
                      Call_StateTree_Flush (Inr newStateTreeCid),
                      Call_StorageMap_Flush (Some err)]\<rparr>))) \<and>
   (\<forall>ms h res. Call_ApplyMessages ms h (Inr res) \<in>
        set (calls (snd (Generate w baseTipSet tickets electionProof nullBlockCount
           \<lparr>pool = p, calls = []\<rparr>))) \<longrightarrow>
      list_ex is_StateTree_Flush
        (calls (snd (Generate w baseTipSet tickets electionProof nullBlockCount
           \<lparr>pool = p, calls = []\<rparr>)))) \<and>
   (\<forall>c. Call_StateTree_Flush (Inr c) \<in>
        set (calls (snd (Generate w baseTipSet tickets electionProof nullBlockCount
           \<lparr>pool = p, calls = []\<rparr>))) \<longrightarrow>
      list_ex is_StorageMap_Flush
        (calls (snd (Generate w baseTipSet tickets electionProof nullBlockCount
           \<lparr>pool = p, calls = []\<rparr>)))) \<and>
   preceded_by messages_applied is_StateTree_Flush
     (calls (snd (Generate w baseTipSet tickets electionProof nullBlockCount
        \<lparr>pool = p, calls = []\<rparr>))) \<and>
   preceded_by tree_flushed is_StorageMap_Flush
     (calls (snd (Generate w baseTipSet tickets electionProof nullBlockCount
        \<lparr>pool = p, calls = []\<rparr>))) \<and>
   preceded_by map_flushed block_building
     (calls (snd (Generate w baseTipSet tickets electionProof nullBlockCount
        \<lparr>pool = p, calls = []\<rparr>))) \<and>
   (\<forall>e. Call_StateTree_Flush (Inl e) \<in>
        set (calls (snd (Generate w baseTipSet tickets electionProof nullBlockCount
           \<lparr>pool = p, calls = []\<rparr>))) \<longrightarrow>
      fst (Generate w baseTipSet tickets electionProof nullBlockCount
           \<lparr>pool = p, calls = []\<rparr>) =
        Generate_error (Wrap e ''generate flush state tree'')) \<and>
   (\<forall>e. Call_StorageMap_Flush (Some e) \<in>
        set (calls (snd (Generate w baseTipSet tickets electionProof nullBlockCount
           \<lparr>pool = p, calls = []\<rparr>))) \<longrightarrow>
      fst (Generate w baseTipSet tickets electionProof nullBlockCount
           \<lparr>pool = p, calls = []\<rparr>) =
        Generate_error (Wrap e ''generate flush vm storage map'')) \<and>
   (\<forall>b. fst (Generate w baseTipSet tickets electionProof nullBlockCount
           \<lparr>pool = p, calls = []\<rparr>) = Block_ok b \<longrightarrow>
      Call_StateTree_Flush (Inr (StateRoot b)) \<in>
        set (calls (snd (Generate w baseTipSet tickets electionProof nullBlockCount
           \<lparr>pool = p, calls = []\<rparr>))) \<and>
      Call_StorageMap_Flush None \<in>
        set (calls (snd (Generate w baseTipSet tickets electionProof nullBlockCount
           \<lparr>pool = p, calls = []\<rparr>))))"
  (is "?A \<and> ?B \<and> ?Old")
proof -
  have a: ?A
  proof (intro allI impI)
    fix b
    assume "fst (Generate w baseTipSet tickets electionProof nullBlockCount
            \<lparr>pool = p, calls = []\<rparr>) = Block_ok b"
    from Generate_block_run [OF this] show "\<exists>stateTree baseHeight ancestors res stateTree' vms'.
         getStateTree w baseTipSet = Inr stateTree \<and>
         TipSet_Height w baseTipSet = Inr baseHeight \<and>
         getAncestors w baseTipSet (unat (baseHeight + nullBlockCount + 1)) = Inr ancestors \<and>
         processor_ApplyMessagesAndPayRewards w stateTree (vm_NewStorageMap w)
           (filter isBLS (MessageQueue_Drain w (messageSource_Pending w p)) @
            filter (\<lambda>m. \<not> isBLS m) (MessageQueue_Drain w (messageSource_Pending w p)))
           (minerOwnerAddr w) (unat (baseHeight + nullBlockCount + 1)) ancestors =
           Inr (res, stateTree', vms') \<and>
         StateTree_Flush w stateTree' = Inr (StateRoot b) \<and>
         StorageMap_Flush w vms' = None"
      by blast
  qed
  have b: ?B
    by (intro allI impI conjI; elim conjE)
       (rule Generate_tree_flush_error Generate_map_flush_error; assumption)+
  have c: ?Old by (rule Generate_flush_trace)
  show ?thesis by (rule conjI [OF a conjI [OF b c]])
qed

text \<open>
  A worker whose flushes succeed on the tree and the map returned by the applier and
  fail on the ones handed to it produces a block; runs in which the flush of the state
  tree or of the storage map fails end in that error with nothing after it.
\<close>

theorem Generate_flushes_witness:
  "StateTree_Flush strictWorker 0 = Inl (Error ''stale tree'') \<and>
   StorageMap_Flush strictWorker 0 = Some (Error ''stale map'') \<and>
   StateTree_Flush strictWorker 1 = Inr [4] \<and>
   StorageMap_Flush strictWorker 1 = None \<and>
   map_option StateRoot (blockOf (fst (Generate strictWorker () [] [] 0 examplePool))) =
     Some [4] \<and>
   Generate (exampleWorker 10 True failingResponse (Inl (Error ''disk full'')) None)
        () [] [] 0 examplePool =
     (Generate_error (Wrap (Error ''disk full'') ''generate flush state tree''),
      \<lparr>pool = pool examplePool,
       calls = [Call_getStateTree, Call_getPowerTable, Call_HasPower True, Call_getWeight,
                Call_getAncestors 11, Call_Pending,
                Call_ApplyMessages
                  [exampleMessage 3 2, exampleMessage 3 4, exampleMessage 1 1,
                   exampleMessage 2 3] 11 (Inr failingResponse),
                Call_StateTree_Flush (Inl (Error ''disk full''))]\<rparr>) \<and>
   Generate (exampleWorker 10 True failingResponse (Inr [4]) (Some (Error ''disk full'')))
        () [] [] 0 examplePool =
     (Generate_error (Wrap (Error ''disk full'') ''generate flush vm storage map''),
      \<lparr>pool = pool examplePool,
       calls = [Call_getStateTree, Call_getPowerTable, Call_HasPower True, Call_getWeight,
                Call_getAncestors 11, Call_Pending,
                Call_ApplyMessages
                  [exampleMessage 3 2, exampleMessage 3 4, exampleMessage 1 1,
                   exampleMessage 2 3] 11 (Inr failingResponse),
                Call_StateTree_Flush (Inr [4]),
                Call_StorageMap_Flush (Some (Error ''disk full''))]\<rparr>)"
  using Generate_flushes
    [where w = strictWorker and baseTipSet = "()" and tickets = "[]" and electionProof = "[]"
       and nullBlockCount = 0 and p = "pool examplePool"]
    Generate_flushes
    [where w = "exampleWorker 10 True failingResponse (Inl (Error ''disk full'')) None"
       and baseTipSet = "()" and tickets = "[]" and electionProof = "[]"
       and nullBlockCount = 0 and p = "pool examplePool"]
    Generate_flushes
    [where w = "exampleWorker 10 True failingResponse (Inr [4]) (Some (Error ''disk full''))"
       and baseTipSet = "()" and tickets = "[]" and electionProof = "[]"
       and nullBlockCount = 0 and p = "pool examplePool"]
  by (simp add: Generate_unfold example_defs strictWorker_def)

end
